theory Spec2Isabelle
  imports Complex_Main "HOL-Library.List_Lexorder" "HOL-Library.Char_ord" "HOL-Library.Multiset" "HOL-Library.AList"
begin

section \<open>Python values shared by the modules\<close>

text \<open>
  A \<^verbatim>\<open>pathlib.Path\<close> is the list of its parts; paths are ordered as Python orders
  them, by comparing the part lists lexicographically, strings by code point.
\<close>

type_synonym path = "string list"

definition name :: "path \<Rightarrow> string" where
  "name p = (if p = [] then [] else last p)"

text \<open>\<^verbatim>\<open>str.rfind\<close>: the index of the last occurrence, \<open>None\<close> for Python's \<open>-1\<close>.\<close>

fun rfind :: "char \<Rightarrow> string \<Rightarrow> nat option" where
  "rfind c [] = None"
| "rfind c (x # xs) =
     (case rfind c xs of
        Some i \<Rightarrow> Some (Suc i)
      | None \<Rightarrow> if x = c then Some 0 else None)"

text \<open>\<^verbatim>\<open>Path.stem\<close>: the final component without its last suffix.\<close>

definition stem :: "path \<Rightarrow> string" where
  "stem p =
     (let n = name p in
      case rfind (CHR ''.'') n of
        None \<Rightarrow> n
      | Some i \<Rightarrow> if 0 < i \<and> i < length n - 1 then take i n else n)"

text \<open>\<^verbatim>\<open>str.split(sep)\<close> with a one-character separator; the result is never empty.\<close>

fun split :: "char \<Rightarrow> string \<Rightarrow> string list" where
  "split c [] = [[]]"
| "split c (x # xs) =
     (if x = c then [] # split c xs
      else (case split c xs of
              t # ts \<Rightarrow> (x # t) # ts
            | [] \<Rightarrow> [[x]]))"

text \<open>
  Records of the \<^verbatim>\<open>logging\<close> module: level, format string and the arguments that are
  passed for the placeholders.
\<close>

datatype exn =
    KeyError string
  | ValueError string
  | IndexError string
  | UnitsError string
  | CoordinateNotFoundError string
  | TypeError string
  | ArithmeticError string
  | OtherError string

datatype arg =
    Str string
  | Num nat
  | PathArg path
  | StrList "string list"
  | ExcInfo exn

datatype level = INFO | ERROR

record log_record =
  lvl :: level
  fmt :: string
  args :: "arg list"

definition info :: "string \<Rightarrow> arg list \<Rightarrow> log_record" where
  "info f as = \<lparr>lvl = INFO, fmt = f, args = as\<rparr>"

definition error :: "string \<Rightarrow> arg list \<Rightarrow> log_record" where
  "error f as = \<lparr>lvl = ERROR, fmt = f, args = as\<rparr>"

section \<open>cmorize\_obs\_era\_interim: the file resolver\<close>

text \<open>
  An entry of \<^verbatim>\<open>cfg['variables']\<close> as the worker functions see it, that is after
  \<^verbatim>\<open>cmorization\<close> has filled in \<^verbatim>\<open>short_name\<close>. The keys \<^verbatim>\<open>file\<close>,
  \<^verbatim>\<open>files\<close> and \<^verbatim>\<open>operator\<close> may be absent from the dictionary; \<^verbatim>\<open>raw\<close> is one
  name for a \<^verbatim>\<open>file\<close> entry and a list of names for a \<^verbatim>\<open>files\<close> entry.
\<close>

record var =
  short_name :: string
  mip :: string
  raw :: "string list"
  file' :: "string option"
  files :: "string list option"
  operator :: "string option"

text \<open>
  \<^verbatim>\<open>files_dict\<close> is a \<^verbatim>\<open>defaultdict(list)\<close>: a dictionary in insertion order whose
  lookup of a missing key inserts an empty list.
\<close>

type_synonym files_dict = "(string \<times> path list) list"

fun dict_append :: "'k \<Rightarrow> 'v \<Rightarrow> ('k \<times> 'v list) list \<Rightarrow> ('k \<times> 'v list) list" where
  "dict_append k v [] = [(k, [v])]"
| "dict_append k v ((k', vs) # d) =
     (if k = k' then (k', vs @ [v]) # d else (k', vs) # dict_append k v d)"

definition dict_getitem :: "files_dict \<Rightarrow> string \<Rightarrow> path list \<times> files_dict" where
  "dict_getitem d k =
     (case map_of d k of
        Some v \<Rightarrow> (v, d)
      | None \<Rightarrow> ([], d @ [(k, [])]))"

definition dict_pop :: "string \<Rightarrow> files_dict \<Rightarrow> files_dict" where
  "dict_pop k d = filter (\<lambda>(k', v). k' \<noteq> k) d"

definition year_of :: "path \<Rightarrow> string" where
  "year_of item = last (split (CHR ''_'') (stem item))"

fun add_items :: "path list \<Rightarrow> files_dict \<Rightarrow> files_dict" where
  "add_items [] d = d"
| "add_items (item # items) d = add_items items (dict_append (year_of item) item d)"

text \<open>
  The first loop of \<^verbatim>\<open>_get_files\<close>. The directory is read through \<open>glob\<close>, which
  gives the paths that \<^verbatim>\<open>Path(in_dir).glob(in_file)\<close> yields, in any order.
\<close>

fun scan_patterns ::
  "(string \<Rightarrow> string \<Rightarrow> path list) \<Rightarrow> string \<Rightarrow> string list \<Rightarrow> files_dict \<Rightarrow> files_dict" where
  "scan_patterns glob in_dir [] d = d"
| "scan_patterns glob in_dir (in_file # rest) d =
     scan_patterns glob in_dir rest (add_items (sort (glob in_dir in_file)) d)"

definition needs_record :: "var \<Rightarrow> string \<Rightarrow> nat \<Rightarrow> log_record" where
  "needs_record v year n =
     info ''CMORizing %s at time '%s' needs '%s' input file/s''
       [Str (short_name v), Str year, Num n]"

text \<open>The second loop: every year of a copy of the dictionary is checked for completeness.\<close>

fun check_complete ::
  "var \<Rightarrow> nat \<Rightarrow> string list \<Rightarrow> files_dict \<times> log_record list \<Rightarrow> files_dict \<times> log_record list" where
  "check_complete v n [] (d, lg) = (d, lg)"
| "check_complete v n (year # years) (d, lg) =
     (case dict_getitem d year of
        (fs, d') \<Rightarrow>
          if length fs \<noteq> n
          then check_complete v n years (dict_pop year d', lg @ [needs_record v year n])
          else check_complete v n years (d', lg))"

definition get_files ::
  "(string \<Rightarrow> string \<Rightarrow> path list) \<Rightarrow> string \<Rightarrow> var \<Rightarrow>
     exn + files_dict \<times> log_record list" where
  "get_files glob in_dir v =
     (case files v of
        None \<Rightarrow> Inl (KeyError ''files'')
      | Some pats \<Rightarrow>
          (let files_dict = scan_patterns glob in_dir pats []
           in Inr (check_complete v (length pats) (map fst files_dict) (files_dict, []))))"

definition group_of :: "files_dict \<Rightarrow> string \<Rightarrow> path list" where
  "group_of d k = (case map_of d k of None \<Rightarrow> [] | Some v \<Rightarrow> v)"

definition matched :: "(string \<Rightarrow> string \<Rightarrow> path list) \<Rightarrow> string \<Rightarrow> string \<Rightarrow> string \<Rightarrow> path list" where
  "matched glob in_dir y p = filter (\<lambda>f. year_of f = y) (sort (glob in_dir p))"

definition one_per_pattern ::
  "(string \<Rightarrow> string \<Rightarrow> path list) \<Rightarrow> string \<Rightarrow> string list \<Rightarrow> path list \<Rightarrow> bool" where
  "one_per_pattern glob in_dir pats g = list_all2 (\<lambda>p f. f \<in> set (glob in_dir p)) pats g"

definition ex_glob :: "string \<Rightarrow> string \<Rightarrow> path list" where
  "ex_glob in_dir pat =
     (if in_dir = ''in'' \<and> pat = ''ERA-Interim_ssr_monthly_*.nc''
      then [[''in'', ''ERA-Interim_ssr_monthly_2001.nc''], [''in'', ''ERA-Interim_ssr_monthly_2000.nc'']]
      else if in_dir = ''in'' \<and> pat = ''ERA-Interim_ssrd_monthly_*.nc''
      then [[''in'', ''ERA-Interim_ssrd_monthly_2000.nc'']]
      else [])"

definition ex_glob2 :: "string \<Rightarrow> string \<Rightarrow> path list" where
  "ex_glob2 in_dir pat =
     (if in_dir = ''in'' \<and> pat = ''ERA-Interim_ssr_monthly_*.nc''
      then [[''in'', ''ERA-Interim_ssr_monthly_2000.nc''], [''in'', ''ERA-Interim_ssr_monthly_v2_2000.nc'']]
      else [])"

definition ex_var :: var where
  "ex_var = \<lparr>short_name = ''rsus'', mip = ''Amon'', raw = [''ssr'', ''ssrd''], file' = None,
     files = Some [''ERA-Interim_ssr_monthly_*.nc'', ''ERA-Interim_ssrd_monthly_*.nc''],
     operator = Some ''sum''\<rparr>"

section \<open>cmorize\_obs\_era\_interim: the dispatcher\<close>

text \<open>
  An entry of \<^verbatim>\<open>cfg['variables']\<close> as the configuration gives it: \<^verbatim>\<open>short_name\<close> may
  be absent, and \<^verbatim>\<open>cmorization\<close> then takes the key of the entry.
\<close>

record var_entry =
  e_short_name :: "string option"
  e_mip :: string
  e_raw :: "string list"
  e_file :: "string option"
  e_files :: "string list option"
  e_operator :: "string option"

definition fill_short_name :: "string \<Rightarrow> var_entry \<Rightarrow> var" where
  "fill_short_name key e =
     \<lparr>short_name = (case e_short_name e of None \<Rightarrow> key | Some s \<Rightarrow> s),
      mip = e_mip e, raw = e_raw e, file' = e_file e, files = e_files e,
      operator = e_operator e\<rparr>"

record cfg =
  cfg_attributes :: "(string \<times> string) list"
  cfg_cmor_table :: "string option"
  cfg_variables :: "(string \<times> var_entry) list"

text \<open>
  What \<^verbatim>\<open>cmorization\<close> reads from its surroundings: the directory listing, the number
  of processing units (\<^verbatim>\<open>os.cpu_count()\<close> may be \<^verbatim>\<open>None\<close>), the comment template
  filled with the current year, and the order in which \<^verbatim>\<open>as_completed\<close> hands over
  the futures.
\<close>

datatype in_file = One path | Many "path list"

type_synonym completed = "arg \<times> exn option"

record env =
  env_glob :: "string \<Rightarrow> string \<Rightarrow> path list"
  cpu_count :: "nat option"
  format_year :: "string \<Rightarrow> string"
  as_completed :: "completed list \<Rightarrow> completed list"

fun join :: "string \<Rightarrow> string list \<Rightarrow> string" where
  "join sep [] = []"
| "join sep [x] = x"
| "join sep (x # y # ys) = x @ sep @ join sep (y # ys)"

definition str_path :: "path \<Rightarrow> string" where
  "str_path p =
     (case p of
        [] \<Rightarrow> ''.''
      | r # ps \<Rightarrow> if r = ''/'' then r @ join ''/'' ps else join ''/'' p)"

text \<open>\<^verbatim>\<open>int(cpu_count() / 1.5)\<close>, the quotient taken over the rationals.\<close>

definition n_workers :: "nat \<Rightarrow> nat" where
  "n_workers n = nat \<lfloor>(of_nat n :: rat) / 1.5\<rfloor>"

text \<open>
  A submitted future: the arguments of the call to \<^verbatim>\<open>_extract_variable\<close> and the value
  stored for it in the dictionary \<^verbatim>\<open>futures\<close>.
\<close>

record future =
  f_in_file :: in_file
  f_var :: var
  f_key :: arg

definition submit_file :: "var \<Rightarrow> path \<Rightarrow> future" where
  "submit_file v p = \<lparr>f_in_file = One p, f_var = v, f_key = PathArg p\<rparr>"

definition submit_files :: "var \<Rightarrow> path list \<Rightarrow> future" where
  "submit_files v ps = \<lparr>f_in_file = Many ps, f_var = v, f_key = StrList (map str_path ps)\<rparr>"

text \<open>The body of the loop over \<^verbatim>\<open>cfg['variables'].items()\<close>.\<close>

definition submit_var ::
  "env \<Rightarrow> string \<Rightarrow> string \<times> var_entry \<Rightarrow> future list \<times> log_record list \<Rightarrow>
     future list \<times> log_record list" where
  "submit_var ev in_dir item st =
     (case (item, st) of
        ((key, e), (futures, lg)) \<Rightarrow>
          (let v = fill_short_name key e;
               futures1 =
                 (case file' v of
                    None \<Rightarrow> futures
                  | Some pat \<Rightarrow> futures @ map (submit_file v) (sort (env_glob ev in_dir pat)))
           in case files v of
                None \<Rightarrow> (futures1, lg)
              | Some pats \<Rightarrow>
                  (case get_files (env_glob ev) in_dir v of
                     Inl err \<Rightarrow> (futures1, lg)
                   | Inr (files_dict, lg') \<Rightarrow>
                       (futures1 @ map (\<lambda>(year, ps). submit_files v ps) files_dict,
                        lg @ lg'))))"

definition submit_all ::
  "env \<Rightarrow> string \<Rightarrow> (string \<times> var_entry) list \<Rightarrow> future list \<times> log_record list" where
  "submit_all ev in_dir vs = fold (submit_var ev in_dir) vs ([], [])"

definition finished_record :: "arg \<Rightarrow> log_record" where
  "finished_record k = info ''Finished CMORizing %s'' [k]"

definition failed_record :: "arg \<Rightarrow> log_record" where
  "failed_record k = error ''Failed to CMORize %s'' [k]"

text \<open>
  The loop over \<^verbatim>\<open>as_completed(futures)\<close>: the first exception seen is logged with the
  key of its future and raised again, which ends the loop.
\<close>

fun collect :: "completed list \<Rightarrow> log_record list \<Rightarrow> log_record list \<times> exn option" where
  "collect [] lg = (lg, None)"
| "collect ((k, Some err) # rest) lg = (lg @ [failed_record k], Some err)"
| "collect ((k, None) # rest) lg = collect rest (lg @ [finished_record k])"

text \<open>
  What a call of \<^verbatim>\<open>cmorization\<close> leaves behind: the \<^verbatim>\<open>max_workers\<close> of the pool it
  made, the futures it submitted, the calls the pool has run, the log of the calling
  process and the exception that left the function, if any.
\<close>

record run =
  max_workers :: "nat option"
  submitted :: "future list"
  attempted :: "future list"
  run_log :: "log_record list"
  raised :: "exn option"

definition aborted :: "exn \<Rightarrow> run" where
  "aborted err =
     \<lparr>max_workers = None, submitted = [], attempted = [], run_log = [], raised = Some err\<rparr>"

text \<open>
  \<^verbatim>\<open>cmorization\<close>. The pool has one worker, which runs the calls in the order of
  submission; leaving the \<^verbatim>\<open>with\<close> block waits for all of them, so every future is
  done when the results are read. \<open>job\<close> is the outcome of the call of
  \<^verbatim>\<open>_extract_variable\<close> in the worker: \<open>None\<close> when it returns, the exception otherwise.
\<close>

definition prepare :: "env \<Rightarrow> string \<Rightarrow> cfg \<Rightarrow> cfg" where
  "prepare ev comment c =
     c\<lparr>cfg_attributes := AList.update ''comment'' (format_year ev comment) (cfg_attributes c),
       cfg_cmor_table := None\<rparr>"

definition workers_record :: "nat \<Rightarrow> log_record" where
  "workers_record n = info ''Using at most %s workers'' [Num (n_workers n)]"

definition run_pool ::
  "(in_file \<Rightarrow> var \<Rightarrow> cfg \<Rightarrow> string \<Rightarrow> exn option) \<Rightarrow> cfg \<Rightarrow> string \<Rightarrow>
     future list \<Rightarrow> completed list" where
  "run_pool job c out_dir futures =
     map (\<lambda>f. (f_key f, job (f_in_file f) (f_var f) c out_dir)) futures"

definition cmorization ::
  "env \<Rightarrow> (in_file \<Rightarrow> var \<Rightarrow> cfg \<Rightarrow> string \<Rightarrow> exn option) \<Rightarrow>
     string \<Rightarrow> string \<Rightarrow> cfg \<Rightarrow> run" where
  "cmorization ev job in_dir out_dir c =
     (case map_of (cfg_attributes c) ''comment'' of
        None \<Rightarrow> aborted (KeyError ''comment'')
      | Some comment \<Rightarrow>
     (case cfg_cmor_table c of
        None \<Rightarrow> aborted (KeyError ''cmor_table'')
      | Some t \<Rightarrow>
     (case cpu_count ev of
        None \<Rightarrow> aborted (TypeError ''unsupported operand type(s) for /'')
      | Some n \<Rightarrow>
          (let c' = prepare ev comment c;
               lg0 = [workers_record n];
               (futures, lg1) = submit_all ev in_dir (cfg_variables c');
               results = run_pool job c' out_dir futures;
               (lg2, err) = collect (as_completed ev results) (lg0 @ lg1)
           in \<lparr>max_workers = Some 1, submitted = futures, attempted = futures,
                run_log = lg2, raised = err\<rparr>))))"



text \<open>
  A directory with two yearly files of the 2m temperature and the files of the example
  above, a configuration with a single-pattern and a sum-combination variable, and
  outcomes of the extraction: all calls return, or the call for the year 2001 raises.
\<close>

definition ex_dir :: "string \<Rightarrow> string \<Rightarrow> path list" where
  "ex_dir in_dir pat =
     (if in_dir = ''in'' \<and> pat = ''ERA-Interim_t2m_daily_*.nc''
      then [[''in'', ''ERA-Interim_t2m_daily_2001.nc''], [''in'', ''ERA-Interim_t2m_daily_2000.nc'']]
      else ex_glob in_dir pat)"

definition ex_env :: env where
  "ex_env = \<lparr>env_glob = ex_dir, cpu_count = Some 4, format_year = (\<lambda>s. s), as_completed = rev\<rparr>"

definition ex_cfg :: cfg where
  "ex_cfg =
     \<lparr>cfg_attributes = [(''project_id'', ''OBS''), (''comment'', ''Contains modified data'')],
      cfg_cmor_table = Some ''CMIP5'',
      cfg_variables =
        [(''tas'', \<lparr>e_short_name = None, e_mip = ''day'', e_raw = [''t2m''],
                    e_file = Some ''ERA-Interim_t2m_daily_*.nc'', e_files = None,
                    e_operator = None\<rparr>),
         (''rsus'', \<lparr>e_short_name = None, e_mip = ''Amon'', e_raw = [''ssr'', ''ssrd''],
                     e_file = None,
                     e_files = Some [''ERA-Interim_ssr_monthly_*.nc'',
                                     ''ERA-Interim_ssrd_monthly_*.nc''],
                     e_operator = Some ''sum''\<rparr>)]\<rparr>"

definition extract_ok :: "in_file \<Rightarrow> var \<Rightarrow> cfg \<Rightarrow> string \<Rightarrow> exn option" where
  "extract_ok f v c out_dir = None"



text \<open>
  The size of the pool in the words of the specification: a fixed fraction of the
  processing units, at least one.
\<close>

definition claimed_pool_size :: "nat \<Rightarrow> nat" where
  "claimed_pool_size n = max 1 (n_workers n)"

section \<open>Cubes\<close>

text \<open>
  A unit of measure is kept as the expression that builds it: a unit string, a product, a
  quotient, or a time reference \<open>Since step origin\<close> (\<^verbatim>\<open>hours since 1900-01-01\<close>) with the
  length of its step and its reference date, both in microseconds, the date counted from
  1850-01-01 00:00.
\<close>

datatype cf_unit =
    U string
  | Times cf_unit cf_unit
  | Over cf_unit cf_unit
  | Since int int

text \<open>The values of an array, nested along its dimensions.\<close>

datatype nd = Sc rat | Arr "nd list"

primrec nd_map :: "(rat \<Rightarrow> rat) \<Rightarrow> nd \<Rightarrow> nd" where
  "nd_map f (Sc x) = Sc (f x)"
| "nd_map f (Arr xs) = Arr (map (nd_map f) xs)"

text \<open>
  An operation on two arrays of one shape, element by element; \<open>None\<close> when the shapes
  differ (the broadcasting of numpy is left out).
\<close>

primrec nd_zip :: "(rat \<Rightarrow> rat \<Rightarrow> rat) \<Rightarrow> nd \<Rightarrow> nd \<Rightarrow> nd option" where
  "nd_zip f (Sc x) n = (case n of Sc y \<Rightarrow> Some (Sc (f x y)) | Arr ys \<Rightarrow> None)"
| "nd_zip f (Arr xs) n =
     (case n of
        Sc y \<Rightarrow> None
      | Arr ys \<Rightarrow>
          if length xs = length ys
          then map_option Arr (those (map2 (\<lambda>g y. g y) (map (nd_zip f) xs) ys))
          else None)"

text \<open>
  The broadcasting of numpy for an operation on two arrays: the array of lower rank gets
  leading dimensions of length one, and along every dimension the lengths must be equal
  or one of them must be one, in which case that array is repeated. \<open>None\<close> when the
  shapes cannot be broadcast.
\<close>

primrec rank :: "nd \<Rightarrow> nat" where
  "rank (Sc x) = 0"
| "rank (Arr xs) = Suc (case map rank xs of [] \<Rightarrow> 0 | r # rs \<Rightarrow> r)"

primrec lift :: "nat \<Rightarrow> nd \<Rightarrow> nd" where
  "lift 0 a = a"
| "lift (Suc n) a = Arr [lift n a]"

primrec nd_stretch :: "(rat \<Rightarrow> rat \<Rightarrow> rat) \<Rightarrow> nd \<Rightarrow> nd \<Rightarrow> nd option" where
  "nd_stretch f (Sc x) n = (case n of Sc y \<Rightarrow> Some (Sc (f x y)) | Arr ys \<Rightarrow> None)"
| "nd_stretch f (Arr xs) n =
     (case n of
        Sc y \<Rightarrow> None
      | Arr ys \<Rightarrow>
          if length xs = length ys
          then map_option Arr (those (map2 (\<lambda>g y. g y) (map (nd_stretch f) xs) ys))
          else if length xs = 1
          then map_option Arr (those (map (hd (map (nd_stretch f) xs)) ys))
          else if length ys = 1
          then map_option Arr (those (map (\<lambda>g. g (hd ys)) (map (nd_stretch f) xs)))
          else None)"

definition nd_broadcast :: "(rat \<Rightarrow> rat \<Rightarrow> rat) \<Rightarrow> nd \<Rightarrow> nd \<Rightarrow> nd option" where
  "nd_broadcast f a b = nd_stretch f (lift (rank b - rank a) a) (lift (rank a - rank b) b)"

text \<open>
  The six fields of \<^verbatim>\<open>iris.cube.CubeMetadata\<close>, a coordinate with the data dimension it
  spans (none for a scalar coordinate) and the axis that iris guesses for it, and a cube.
\<close>

record metadata =
  standard_name :: "string option"
  long_name :: "string option"
  var_name :: "string option"
  units :: cf_unit
  attributes :: "(string \<times> string) list"
  cell_methods :: "string list"

record coord =
  c_standard_name :: "string option"
  c_long_name :: "string option"
  c_var_name :: "string option"
  c_units :: cf_unit
  c_points :: "rat list"
  c_bounds :: "(rat \<times> rat) list option"
  c_dim :: "nat option"
  c_axis :: "char option"

record cube =
  meta :: metadata
  data :: nd
  coords :: "coord list"

text \<open>
  A cube as the object that the fixes work on in place. Its data are integers or floating
  point numbers. Its attributes are a dictionary, an object of its own that the cube
  holds by address; \<^verbatim>\<open>cube.metadata\<close> is a tuple of the six fields of the cube and so
  holds the address of the same dictionary.
\<close>

datatype dtype = IntData | FloatData

datatype scalar = IntVal int | FloatVal rat

type_synonym dict_store = "(string \<times> string) list list"

record cube_object =
  o_standard_name :: "string option"
  o_long_name :: "string option"
  o_var_name :: "string option"
  o_units :: cf_unit
  o_attributes :: nat
  o_cell_methods :: "string list"
  o_dtype :: dtype
  o_data :: nd
  o_coords :: "coord list"

record cube_metadata =
  m_standard_name :: "string option"
  m_long_name :: "string option"
  m_var_name :: "string option"
  m_units :: cf_unit
  m_attributes :: nat
  m_cell_methods :: "string list"

text \<open>An entry of a CMOR table, as \<^verbatim>\<open>get_variable\<close> returns it.\<close>

record coord_def =
  cd_standard_name :: "string option"
  cd_out_name :: "string option"
  cd_long_name :: "string option"
  cd_units :: cf_unit

record cmor_var =
  d_short_name :: "string option"
  d_standard_name :: "string option"
  d_long_name :: "string option"
  d_units :: cf_unit
  d_dimensions :: "string list"
  d_coordinates :: "(char \<times> coord_def) list"

text \<open>
  The libraries that the modules call: what the arithmetic of iris leaves of the metadata
  of its result, and what its arithmetic in place does to the fields of the cube object
  and to the dictionaries; which units udunits takes for equal and which operands iris
  takes to have compatible coordinates; the conversions of udunits between units that are
  no time references,
  the rounding to single and to double precision, the calendar (the year and the day of
  the year of a day counted from 1850-01-01), the loading of a variable from a file, the
  CMOR tables, \<^verbatim>\<open>utils.set_global_atts\<close> and \<^verbatim>\<open>utils.add_scalar_height_coord\<close>.
\<close>

record lib =
  clear_identity :: "metadata \<Rightarrow> metadata"
  clear_object :: "cube_object \<times> dict_store \<Rightarrow> cube_object \<times> dict_store"
  same_unit :: "cf_unit \<Rightarrow> cf_unit \<Rightarrow> bool"
  compatible :: "cube \<Rightarrow> cube \<Rightarrow> bool"
  udunits :: "cf_unit \<Rightarrow> cf_unit \<Rightarrow> (rat \<Rightarrow> rat) option"
  float32 :: "rat \<Rightarrow> rat"
  float64 :: "rat \<Rightarrow> rat"
  calendar :: "int \<Rightarrow> int \<times> int"
  load_cube :: "path \<Rightarrow> string \<Rightarrow> exn + cube"
  get_variable :: "string \<Rightarrow> string \<Rightarrow> string \<Rightarrow> exn + cmor_var"
  set_global_atts :: "(string \<times> string) list \<Rightarrow> cube \<Rightarrow> exn + cube"
  add_scalar_height_coord :: "rat \<Rightarrow> cube \<Rightarrow> cube"

text \<open>Sequencing of calls that may raise.\<close>

definition andthen :: "exn + 'a \<Rightarrow> ('a \<Rightarrow> exn + 'b) \<Rightarrow> exn + 'b" where
  "andthen m f = (case m of Inl err \<Rightarrow> Inl err | Inr x \<Rightarrow> f x)"

section \<open>The fixes for inmcm4\<close>

definition deref :: "dict_store \<Rightarrow> nat \<Rightarrow> (string \<times> string) list" where
  "deref h a = (if a < length h then h ! a else [])"

definition attributes_of :: "cube_object \<times> dict_store \<Rightarrow> (string \<times> string) list" where
  "attributes_of st = deref (snd st) (o_attributes (fst st))"

text \<open>
  The getter and the setter of \<^verbatim>\<open>cube.metadata\<close>. The getter gives the fields as they
  are, the dictionary by its address. The setter assigns the six fields; assigning the
  attributes makes a new dictionary with the entries that the given one has at that
  moment.
\<close>

definition get_metadata :: "cube_object \<Rightarrow> cube_metadata" where
  "get_metadata c =
     \<lparr>m_standard_name = o_standard_name c, m_long_name = o_long_name c,
      m_var_name = o_var_name c, m_units = o_units c, m_attributes = o_attributes c,
      m_cell_methods = o_cell_methods c\<rparr>"

definition set_metadata ::
  "cube_metadata \<Rightarrow> cube_object \<times> dict_store \<Rightarrow> cube_object \<times> dict_store" where
  "set_metadata m st =
     (case st of
        (c, h) \<Rightarrow>
          (c\<lparr>o_standard_name := m_standard_name m, o_long_name := m_long_name m,
             o_var_name := m_var_name m, o_units := m_units m, o_attributes := length h,
             o_cell_methods := m_cell_methods m\<rparr>,
           h @ [deref h (m_attributes m)]))"

definition scalar_value :: "scalar \<Rightarrow> rat" where
  "scalar_value k = (case k of IntVal i \<Rightarrow> of_int i | FloatVal x \<Rightarrow> x)"

definition is_float :: "scalar \<Rightarrow> bool" where
  "is_float k = (case k of IntVal i \<Rightarrow> False | FloatVal x \<Rightarrow> True)"

text \<open>
  \<^verbatim>\<open>cube *= k\<close>: iris refuses to multiply integer data by a floating point number in
  place; otherwise the data are multiplied in place and iris resets the identity of the
  cube as it does for every arithmetic operation.
\<close>

definition imul ::
  "lib \<Rightarrow> scalar \<Rightarrow> cube_object \<times> dict_store \<Rightarrow> exn + cube_object \<times> dict_store" where
  "imul L k st =
     (case st of
        (c, h) \<Rightarrow>
          if o_dtype c = IntData \<and> is_float k
          then Inl (ArithmeticError ''Cannot perform inplace multiplication'')
          else
            (case clear_object L (c, h) of
               (c1, h1) \<Rightarrow>
                 Inr (c1\<lparr>o_data := nd_map (\<lambda>x. x * scalar_value k) (o_data c),
                         o_dtype := o_dtype c, o_coords := o_coords c\<rparr>,
                      h1)))"

text \<open>\<^verbatim>\<open>gpp.fix_data\<close> and \<^verbatim>\<open>lai.fix_data\<close>; the cube that is returned is the object itself.\<close>

definition gpp_fix_data ::
  "lib \<Rightarrow> cube_object \<times> dict_store \<Rightarrow> exn + cube_object \<times> dict_store" where
  "gpp_fix_data L st =
     (let metadata = get_metadata (fst st)
      in andthen (imul L (IntVal (- 1)) st) (\<lambda>st1. Inr (set_metadata metadata st1)))"

definition lai_fix_data ::
  "lib \<Rightarrow> cube_object \<times> dict_store \<Rightarrow> exn + cube_object \<times> dict_store" where
  "lai_fix_data L st =
     (let metadata = get_metadata (fst st)
      in andthen (imul L (FloatVal 0.01) st) (\<lambda>st1. Inr (set_metadata metadata st1)))"


section \<open>The derivation of netcre\<close>

text \<open>
  \<^verbatim>\<open>lwcre_cube + swcre_cube\<close>: iris refuses operands whose units differ and operands
  whose coordinates it cannot reconcile, numpy operands whose shapes cannot be broadcast;
  the result is a new cube made from the left operand.
\<close>

definition cube_add :: "lib \<Rightarrow> cube \<Rightarrow> cube \<Rightarrow> exn + cube" where
  "cube_add L a b =
     (if \<not> same_unit L (units (meta a)) (units (meta b))
      then Inl (UnitsError ''Differing units'')
      else if \<not> compatible L a b
      then Inl (ValueError ''differing coordinates'')
      else case nd_broadcast (+) (data a) (data b) of
             None \<Rightarrow> Inl (ValueError ''operands could not be broadcast together'')
           | Some d \<Rightarrow> Inr (a\<lparr>data := d, meta := clear_identity L (meta a)\<rparr>))"

text \<open>
  \<^verbatim>\<open>DerivedVariable.calculate\<close> of netcre. The derivations of lwcre and swcre are the
  arguments \<open>lwcre\<close> and \<open>swcre\<close>.
\<close>

definition netcre_calculate ::
  "lib \<Rightarrow> (cube list \<Rightarrow> exn + cube) \<Rightarrow> (cube list \<Rightarrow> exn + cube) \<Rightarrow> cube list \<Rightarrow> exn + cube" where
  "netcre_calculate L lwcre swcre cubes =
     andthen (lwcre cubes) (\<lambda>lwcre_cube.
     andthen (swcre cubes) (\<lambda>swcre_cube.
     andthen (cube_add L lwcre_cube swcre_cube) (\<lambda>netcre_cube.
       Inr (netcre_cube\<lparr>meta := (meta netcre_cube)\<lparr>units := units (meta lwcre_cube)\<rparr>\<rparr>))))"

text \<open>\<^verbatim>\<open>get_required\<close> of netcre.\<close>

definition netcre_get_required :: "string \<Rightarrow> (string \<times> string) list" where
  "netcre_get_required frequency =
     [(''rlut'', ''T2'' @ frequency @ ''s''),
      (''rlutcs'', ''T2'' @ frequency @ ''s''),
      (''rsut'', ''T2'' @ frequency @ ''s''),
      (''rsutcs'', ''T2'' @ frequency @ ''s'')]"

section \<open>cmorize\_obs\_era\_interim: attributes and units\<close>

definition var_in :: "cube \<Rightarrow> string list \<Rightarrow> bool" where
  "var_in c names = (case var_name (meta c) of None \<Rightarrow> False | Some v \<Rightarrow> v \<in> set names)"

definition set_units :: "cf_unit \<Rightarrow> cube \<Rightarrow> cube" where
  "set_units u c = c\<lparr>meta := (meta c)\<lparr>units := u\<rparr>\<rparr>"

definition set_attribute :: "string \<Rightarrow> string \<Rightarrow> cube \<Rightarrow> cube" where
  "set_attribute k v c =
     c\<lparr>meta := (meta c)\<lparr>attributes := AList.update k v (attributes (meta c))\<rparr>\<rparr>"

definition set_data :: "nd \<Rightarrow> cube \<Rightarrow> cube" where
  "set_data d c = c\<lparr>data := d\<rparr>"

text \<open>
  Each \<^verbatim>\<open>if cube.var_name in {...}:\<close> statement of \<^verbatim>\<open>_set_global_attributes\<close>: the
  raw names that it tests for and its body.
\<close>

type_synonym rule = "string list \<times> (cmor_var \<Rightarrow> cube \<Rightarrow> cube)"

definition metres :: rule where
  "metres = ([''e'', ''sf''], \<lambda>defn c. set_units (U ''m'') c)"

definition mass_flux :: rule where
  "mass_flux =
     ([''e'', ''sf'', ''tp'', ''pev''],
      \<lambda>defn c.
        let c1 = set_units (Times (units (meta c)) (U ''kg m-3 day-1'')) c
        in set_data (nd_map (\<lambda>x. x * 1000) (data c1)) c1)"

definition per_day :: rule where
  "per_day =
     ([''ssr'', ''ssrd'', ''tisr'', ''hfds''],
      \<lambda>defn c.
        let c1 = set_units (Times (units (meta c)) (U ''day-1'')) c
        in set_attribute ''positive'' ''down'' c1)"

definition stress_positive :: rule where
  "stress_positive = ([''iews'', ''inss''], \<lambda>defn c. set_attribute ''positive'' ''down'' c)"

definition percentage :: rule where
  "percentage =
     ([''lsm'', ''tcc''],
      \<lambda>defn c.
        let c1 = set_units (d_units defn) c
        in set_data (nd_map (\<lambda>x. x * 100) (data c1)) c1)"

definition geopotential_height :: rule where
  "geopotential_height =
     ([''z''],
      \<lambda>defn c.
        let c1 = set_units (Over (units (meta c)) (U ''m s-2'')) c
        in set_data (nd_map (\<lambda>x. x / 9.80665) (data c1)) c1)"

definition applies :: "rule \<Rightarrow> cube \<Rightarrow> bool" where
  "applies r c = var_in c (fst r)"

definition apply_rule :: "cmor_var \<Rightarrow> rule \<Rightarrow> cube \<Rightarrow> cube" where
  "apply_rule defn r c = (if applies r c then snd r defn c else c)"

definition set_global_attributes ::
  "lib \<Rightarrow> cube \<Rightarrow> (string \<times> string) list \<Rightarrow> cmor_var \<Rightarrow> exn + cube" where
  "set_global_attributes L c attrs defn =
     andthen (set_global_atts L attrs c) (\<lambda>c0.
       let c1 = apply_rule defn metres c0;
           c2 = apply_rule defn mass_flux c1;
           c3 = apply_rule defn per_day c2;
           c4 = apply_rule defn stress_positive c3;
           c5 = apply_rule defn percentage c4;
           c6 = apply_rule defn geopotential_height c5
       in Inr c6)"

text \<open>The statements in the order of the source, and the same statements run in any order.\<close>

definition rule_table :: "rule list" where
  "rule_table = [metres, mass_flux, per_day, stress_positive, percentage, geopotential_height]"

definition apply_rules :: "cmor_var \<Rightarrow> rule list \<Rightarrow> cube \<Rightarrow> cube" where
  "apply_rules defn rs c = fold (apply_rule defn) rs c"

section \<open>cmorize\_obs\_era\_interim: coordinates\<close>

text \<open>
  \<^verbatim>\<open>Coord.name()\<close> and \<^verbatim>\<open>cube.coord(...)\<close>, which raises unless exactly one coordinate
  matches; the result is the position of the coordinate in the cube.
\<close>

definition coord_name :: "coord \<Rightarrow> string" where
  "coord_name k =
     (case c_standard_name k of
        Some s \<Rightarrow> s
      | None \<Rightarrow>
          (case c_long_name k of
             Some s \<Rightarrow> s
           | None \<Rightarrow> (case c_var_name k of Some s \<Rightarrow> s | None \<Rightarrow> ''unknown'')))"

definition find_coord :: "(coord \<Rightarrow> bool) \<Rightarrow> cube \<Rightarrow> exn + nat" where
  "find_coord P c =
     (case filter (\<lambda>i. P (coords c ! i)) [0..<length (coords c)] of
        [i] \<Rightarrow> Inr i
      | _ \<Rightarrow> Inl (CoordinateNotFoundError ''Expected to find exactly 1 coordinate''))"

definition set_coord :: "nat \<Rightarrow> coord \<Rightarrow> cube \<Rightarrow> cube" where
  "set_coord i k c = c\<lparr>coords := (coords c)[i := k]\<rparr>"

text \<open>
  Conversion of values between units. Between two time references it is computed; for
  all other units it is what udunits gives.
\<close>

fun convert :: "lib \<Rightarrow> cf_unit \<Rightarrow> cf_unit \<Rightarrow> (rat \<Rightarrow> rat) option" where
  "convert L (Since s1 o1) (Since s2 o2) =
     (if s2 = 0 then None
      else Some (\<lambda>x. (of_int o1 + x * of_int s1 - of_int o2) / of_int s2))"
| "convert L a b = udunits L a b"

definition coord_convert_units :: "lib \<Rightarrow> cf_unit \<Rightarrow> coord \<Rightarrow> exn + coord" where
  "coord_convert_units L u k =
     (case convert L (c_units k) u of
        None \<Rightarrow> Inl (ValueError ''Unable to convert units'')
      | Some f \<Rightarrow>
          Inr (k\<lparr>c_points := map f (c_points k),
                 c_bounds := map_option (map (\<lambda>(a, b). (f a, f b))) (c_bounds k),
                 c_units := u\<rparr>))"

text \<open>\<^verbatim>\<open>days since 1850-1-1 00:00:00.0\<close>\<close>

definition usec_per_day :: int where
  "usec_per_day = 86400000000"

definition days_since_1850 :: cf_unit where
  "days_since_1850 = Since usec_per_day 0"

text \<open>
  \<^verbatim>\<open>Coord.guess_bounds()\<close> of iris: it refuses points that are not strictly monotonic, a
  coordinate of fewer than two points and a coordinate that has bounds; the bounds are
  set half way to the neighbouring points. The clipping of latitude bounds is left out.
\<close>

definition is_monotonic :: "rat list \<Rightarrow> bool" where
  "is_monotonic ps = (length ps = 1 \<or> sorted_wrt (<) ps \<or> sorted_wrt (>) ps)"

definition diffs :: "rat list \<Rightarrow> rat list" where
  "diffs ps = map (\<lambda>(a, b). b - a) (zip ps (tl ps))"

definition guessed :: "rat list \<Rightarrow> (rat \<times> rat) list" where
  "guessed ps =
     (let d = diffs ps;
          lower = hd d # d;
          upper = d @ [last d]
      in map (\<lambda>(p, l, u). (p - l / 2, p + u / 2)) (zip ps (zip lower upper)))"

definition guess_bounds :: "coord \<Rightarrow> exn + coord" where
  "guess_bounds k =
     (if \<not> is_monotonic (c_points k)
      then Inl (ValueError ''Need monotonic points to generate bounds'')
      else if length (c_points k) < 2
      then Inl (ValueError ''Cannot guess bounds for a coordinate of length 1.'')
      else if c_bounds k \<noteq> None
      then Inl (ValueError ''Coord already has bounds. Remove the bounds before guessing new ones.'')
      else Inr (k\<lparr>c_bounds := Some (guessed (c_points k))\<rparr>))"

text \<open>
  \<^verbatim>\<open>cube[:, ::-1, ...]\<close>: a new cube whose data and whose coordinates along the second
  dimension are reversed. The cube that is indexed stays as it is.
\<close>

definition rev_dim1 :: "nd \<Rightarrow> nd option" where
  "rev_dim1 d =
     (case d of
        Sc x \<Rightarrow> None
      | Arr xs \<Rightarrow>
          map_option Arr
            (those (map (\<lambda>x. case x of Sc y \<Rightarrow> None | Arr ys \<Rightarrow> Some (Arr (rev ys))) xs)))"

definition rev_coord :: "coord \<Rightarrow> coord" where
  "rev_coord k =
     (if c_dim k = Some 1
      then k\<lparr>c_points := rev (c_points k), c_bounds := map_option rev (c_bounds k)\<rparr>
      else k)"

definition getitem_reversed :: "cube \<Rightarrow> exn + cube" where
  "getitem_reversed c =
     (case rev_dim1 (data c) of
        None \<Rightarrow> Inl (IndexError ''More slices requested than dimensions'')
      | Some d \<Rightarrow> Inr (c\<lparr>data := d, coords := map rev_coord (coords c)\<rparr>))"

text \<open>The body of the loop over the axes \<open>T\<close>, \<open>X\<close>, \<open>Y\<close> and \<open>Z\<close>.\<close>

definition fix_axis :: "lib \<Rightarrow> cmor_var \<Rightarrow> char \<Rightarrow> cube \<Rightarrow> exn + cube" where
  "fix_axis L defn axis c =
     (case map_of (d_coordinates defn) axis of
        None \<Rightarrow> Inr c
      | Some coord_def \<Rightarrow>
          andthen (find_coord (\<lambda>k. c_axis k = Some axis) c) (\<lambda>i.
          andthen (if axis = CHR ''T''
                   then coord_convert_units L days_since_1850 (coords c ! i)
                   else Inr (coords c ! i)) (\<lambda>k1.
          andthen (if axis = CHR ''Z''
                   then coord_convert_units L (cd_units coord_def) k1
                   else Inr k1) (\<lambda>k2.
          let k3 = k2\<lparr>c_standard_name := cd_standard_name coord_def,
                      c_var_name := cd_out_name coord_def,
                      c_long_name := cd_long_name coord_def\<rparr>;
              k4 = k3\<lparr>c_points := map (float64 L) (c_points k3)\<rparr>
          in andthen (if length (c_points k4) > 1 then guess_bounds k4 else Inr k4) (\<lambda>k5.
             Inr (set_coord i k5 c))))))"

definition add_heights :: "lib \<Rightarrow> cmor_var \<Rightarrow> cube \<Rightarrow> cube" where
  "add_heights L defn c =
     (let c1 = (if ''height2m'' \<in> set (d_dimensions defn)
                then add_scalar_height_coord L 2 c else c);
          c2 = (if ''height10m'' \<in> set (d_dimensions defn)
                then add_scalar_height_coord L 10 c1 else c1)
      in c2)"

text \<open>
  \<^verbatim>\<open>_fix_coordinates\<close>. Cubes are objects: the store holds them by address, and the
  argument is the address \<open>r\<close> of the caller's cube. The first statement binds the local
  name \<^verbatim>\<open>cube\<close> to the new cube that the indexing makes; every later statement works on
  that cube, which ends at a new address. The function has no \<^verbatim>\<open>return\<close> statement.
\<close>

type_synonym store = "cube list"

definition fix_coordinates :: "lib \<Rightarrow> nat \<Rightarrow> cmor_var \<Rightarrow> store \<Rightarrow> exn + store" where
  "fix_coordinates L r defn h =
     (if length h \<le> r then Inl (OtherError ''no such object'')
      else
        andthen (getitem_reversed (h ! r)) (\<lambda>c0.
        andthen (fix_axis L defn (CHR ''T'') (add_heights L defn c0)) (\<lambda>c1.
        andthen (fix_axis L defn (CHR ''X'') c1) (\<lambda>c2.
        andthen (fix_axis L defn (CHR ''Y'') c2) (\<lambda>c3.
        andthen (fix_axis L defn (CHR ''Z'') c3) (\<lambda>c4.
          Inr (h @ [c4])))))))"

section \<open>cmorize\_obs\_era\_interim: frequency\<close>

text \<open>
  Dates are counted in microseconds from 1850-01-01 00:00, the resolution of
  \<^verbatim>\<open>datetime\<close>. \<open>num2date\<close> and \<open>date2num\<close> are those of a time reference with a step
  of \<open>s\<close> microseconds and the reference date \<open>r\<close>.
\<close>

definition time_ref :: "cf_unit \<Rightarrow> exn + int \<times> int" where
  "time_ref u =
     (case u of
        Since s r \<Rightarrow> if 0 < s then Inr (s, r) else Inl (ValueError ''not a time reference'')
      | _ \<Rightarrow> Inl (ValueError ''not a time reference''))"

definition num2date :: "int \<Rightarrow> int \<Rightarrow> rat \<Rightarrow> int" where
  "num2date s r x = r + round (x * of_int s)"

definition date2num :: "int \<Rightarrow> int \<Rightarrow> int \<Rightarrow> rat" where
  "date2num s r d = of_int (d - r) / of_int s"

text \<open>\<^verbatim>\<open>cell.point - timedelta(seconds=1)\<close> for every cell of the coordinate.\<close>

definition shift_back :: "coord \<Rightarrow> exn + coord" where
  "shift_back k =
     andthen (time_ref (c_units k)) (\<lambda>(s, r).
       Inr (k\<lparr>c_points := map (\<lambda>p. date2num s r (num2date s r p - 1000000)) (c_points k)\<rparr>))"

text \<open>\<^verbatim>\<open>cell.point.replace(hour=12, minute=0, second=0, microsecond=0)\<close>\<close>

definition at_noon :: "int \<Rightarrow> int" where
  "at_noon d = (d div usec_per_day) * usec_per_day + 43200000000"

definition reset_to_noon :: "coord \<Rightarrow> exn + coord" where
  "reset_to_noon k =
     andthen (time_ref (c_units k)) (\<lambda>(s, r).
       Inr (k\<lparr>c_points := map (\<lambda>p. date2num s r (at_noon (num2date s r p))) (c_points k)\<rparr>))"

text \<open>
  \<^verbatim>\<open>daily_statistics\<close> of esmvalcore: it adds the coordinates \<open>day_of_year\<close> and
  \<open>year\<close> of the time cells unless the cube has them, and aggregates the cube by the two.
  The aggregation is modelled for coordinates that span the first dimension of the data,
  where the time of these files is.
\<close>

definition categorised :: "string \<Rightarrow> nat option \<Rightarrow> rat list \<Rightarrow> coord" where
  "categorised nm dm ps =
     \<lparr>c_standard_name = None, c_long_name = Some nm, c_var_name = None, c_units = U ''1'',
      c_points = ps, c_bounds = None, c_dim = dm, c_axis = None\<rparr>"

definition has_coord :: "string \<Rightarrow> cube \<Rightarrow> bool" where
  "has_coord nm c = (\<exists>k \<in> set (coords c). coord_name k = nm)"

definition add_categorised ::
  "lib \<Rightarrow> string \<Rightarrow> (int \<times> int \<Rightarrow> int) \<Rightarrow> cube \<Rightarrow> exn + cube" where
  "add_categorised L nm part c =
     (if has_coord nm c then Inr c
      else
        andthen (find_coord (\<lambda>k. coord_name k = ''time'') c) (\<lambda>i.
        andthen (time_ref (c_units (coords c ! i))) (\<lambda>(s, r).
          Inr (c\<lparr>coords := coords c @
                 [categorised nm (c_dim (coords c ! i))
                    (map (\<lambda>p. of_int (part (calendar L (num2date s r p div usec_per_day))))
                       (c_points (coords c ! i)))]\<rparr>))))"

text \<open>
  The groups of \<^verbatim>\<open>aggregated_by\<close>: the positions that share a key, the keys in the
  order in which they first occur.
\<close>

definition groups :: "'k list \<Rightarrow> ('k \<times> nat list) list" where
  "groups keys = fold (\<lambda>i d. dict_append (keys ! i) i d) [0..<length keys] []"

fun nd_fold :: "(rat \<Rightarrow> rat \<Rightarrow> rat) \<Rightarrow> nd \<Rightarrow> nd list \<Rightarrow> nd option" where
  "nd_fold f a [] = Some a"
| "nd_fold f a (b # bs) = (case nd_zip f a b of None \<Rightarrow> None | Some c \<Rightarrow> nd_fold f c bs)"

text \<open>The aggregators that \<^verbatim>\<open>get_iris_analysis_operation\<close> knows and that are used here.\<close>

definition aggregate :: "string \<Rightarrow> nd list \<Rightarrow> nd option" where
  "aggregate opr slabs =
     (case slabs of
        [] \<Rightarrow> None
      | a # rest \<Rightarrow>
          if opr = ''max'' then nd_fold max a rest
          else if opr = ''min'' then nd_fold min a rest
          else if opr = ''sum'' then nd_fold (+) a rest
          else if opr = ''mean''
          then map_option (nd_map (\<lambda>x. x / of_nat (length slabs))) (nd_fold (+) a rest)
          else None)"

text \<open>
  A coordinate along the aggregated dimension: a coordinate of the grouping keeps the key
  of each group; any other gets as bounds the first and the last value of each group and
  as point their mean.
\<close>

definition aggregate_coord :: "string list \<Rightarrow> nat list list \<Rightarrow> coord \<Rightarrow> coord" where
  "aggregate_coord nms idxs k =
     (if c_dim k \<noteq> Some 0 then k
      else if coord_name k \<in> set nms
      then k\<lparr>c_points := map (\<lambda>g. c_points k ! hd g) idxs, c_bounds := None\<rparr>
      else
        (let bs = map (\<lambda>g. case c_bounds k of
                               None \<Rightarrow> (c_points k ! hd g, c_points k ! last g)
                             | Some b \<Rightarrow> (fst (b ! hd g), snd (b ! last g))) idxs
         in k\<lparr>c_points := map (\<lambda>(lo, hi). (lo + hi) / 2) bs, c_bounds := Some bs\<rparr>))"

definition aggregated_by :: "string \<Rightarrow> string \<Rightarrow> string \<Rightarrow> cube \<Rightarrow> exn + cube" where
  "aggregated_by a b opr c =
     andthen (find_coord (\<lambda>k. coord_name k = a) c) (\<lambda>i.
     andthen (find_coord (\<lambda>k. coord_name k = b) c) (\<lambda>j.
       case data c of
         Sc x \<Rightarrow> Inl (ValueError ''cannot aggregate a scalar'')
       | Arr slabs \<Rightarrow>
           if c_dim (coords c ! i) \<noteq> Some 0 \<or> c_dim (coords c ! j) \<noteq> Some 0
           then Inl (ValueError ''cannot group by these coordinates'')
           else if \<exists>k \<in> set (coords c). c_dim k = Some 0 \<and> length (c_points k) \<noteq> length slabs
           then Inl (ValueError ''coordinate does not span the dimension'')
           else
             (let keys = zip (c_points (coords c ! i)) (c_points (coords c ! j));
                  idxs = map snd (groups keys)
              in case those (map (\<lambda>g. aggregate opr (map (\<lambda>n. slabs ! n) g)) idxs) of
                   None \<Rightarrow> Inl (ValueError ''cannot aggregate'')
                 | Some ds \<Rightarrow>
                     Inr (c\<lparr>data := Arr ds,
                            coords := map (aggregate_coord [a, b] idxs) (coords c),
                            meta := (meta c)\<lparr>cell_methods :=
                              cell_methods (meta c) @ [opr]\<rparr>\<rparr>))))"

definition daily_statistics :: "lib \<Rightarrow> cube \<Rightarrow> string \<Rightarrow> exn + cube" where
  "daily_statistics L c opr =
     andthen (add_categorised L ''day_of_year'' snd c) (\<lambda>c1.
     andthen (add_categorised L ''year'' fst c1) (\<lambda>c2.
       aggregated_by ''day_of_year'' ''year'' opr c2))"

text \<open>\<^verbatim>\<open>cube.remove_coord(cube.coord(name))\<close>\<close>

definition remove_coord :: "string \<Rightarrow> cube \<Rightarrow> exn + cube" where
  "remove_coord nm c =
     andthen (find_coord (\<lambda>k. coord_name k = nm) c) (\<lambda>i.
       Inr (c\<lparr>coords := take i (coords c) @ drop (Suc i) (coords c)\<rparr>))"

text \<open>A statement that changes the coordinate \<^verbatim>\<open>cube.coord('time')\<close> in place.\<close>

definition on_time :: "(coord \<Rightarrow> exn + coord) \<Rightarrow> cube \<Rightarrow> exn + cube" where
  "on_time f c =
     andthen (find_coord (\<lambda>k. coord_name k = ''time'') c) (\<lambda>i.
     andthen (f (coords c ! i)) (\<lambda>k. Inr (set_coord i k c)))"

definition daily_mips :: "string list" where
  "daily_mips = [''day'', ''Eday'', ''CFday'']"

definition end_of_interval :: "string list" where
  "end_of_interval =
     [''tasmax'', ''tasmin'', ''pr'', ''rsds'', ''hfds'', ''evspsbl'', ''rsdt'', ''rss'', ''prsn'']"

definition accumulated :: "string list" where
  "accumulated = [''pr'', ''rsds'', ''hfds'', ''evspsbl'', ''rsdt'', ''rss'', ''prsn'']"

definition reducer :: "cube \<Rightarrow> string" where
  "reducer c =
     (if var_name (meta c) = Some ''tasmax'' then ''max''
      else if var_name (meta c) = Some ''tasmin'' then ''min''
      else if var_in c accumulated then ''sum''
      else ''mean'')"

text \<open>\<^verbatim>\<open>_fix_frequency\<close>\<close>

definition fix_frequency :: "lib \<Rightarrow> cube \<Rightarrow> var \<Rightarrow> exn + cube" where
  "fix_frequency L c v =
     (if mip v \<in> set daily_mips
      then
        andthen (if var_in c end_of_interval then on_time shift_back c else Inr c) (\<lambda>c1.
        andthen (daily_statistics L c1 (reducer c1)) (\<lambda>c2.
        andthen (remove_coord ''day_of_year'' c2) (\<lambda>c3.
        andthen (remove_coord ''year'' c3) (\<lambda>c4.
        andthen (on_time reset_to_noon c4) (\<lambda>c5.
        andthen (on_time (\<lambda>k. Inr (k\<lparr>c_bounds := None\<rparr>)) c5) (\<lambda>c6.
        andthen (on_time guess_bounds c6) (\<lambda>c7.
          Inr c7)))))))
      else Inr c)"

section \<open>cmorize\_obs\_era\_interim: the extraction of a variable\<close>

text \<open>\<^verbatim>\<open>cube += in_cube\<close>\<close>

definition iadd :: "lib \<Rightarrow> cube \<Rightarrow> cube \<Rightarrow> exn + cube" where
  "iadd L a b = cube_add L a b"

fun load_sum :: "lib \<Rightarrow> path list \<Rightarrow> string list \<Rightarrow> cube option \<Rightarrow> exn + cube option" where
  "load_sum L [] names acc = Inr acc"
| "load_sum L (item # items) [] acc = Inl (IndexError ''list index out of range'')"
| "load_sum L (item # items) (nm # names) acc =
     andthen (load_cube L item nm) (\<lambda>in_cube.
       case acc of
         None \<Rightarrow> load_sum L items names (Some in_cube)
       | Some c \<Rightarrow> andthen (iadd L c in_cube) (\<lambda>c'. load_sum L items names (Some c')))"

definition load :: "lib \<Rightarrow> in_file \<Rightarrow> var \<Rightarrow> exn + cube" where
  "load L in_file v =
     (case files v of
        Some pats \<Rightarrow>
          (case in_file of
             One p \<Rightarrow> Inl (TypeError ''PosixPath object is not iterable'')
           | Many ps \<Rightarrow>
               (case operator v of
                  None \<Rightarrow> Inl (KeyError ''operator'')
                | Some operation \<Rightarrow>
                    if operation = ''sum''
                    then andthen (load_sum L ps (raw v) None) (\<lambda>acc.
                           case acc of
                             None \<Rightarrow> Inl (OtherError ''local variable cube referenced before assignment'')
                           | Some c \<Rightarrow> Inr (c\<lparr>meta := (meta c)\<lparr>var_name := Some (short_name v)\<rparr>\<rparr>))
                    else Inl (OtherError ''local variable cube referenced before assignment'')))
      | None \<Rightarrow>
          (case (in_file, raw v) of
             (One p, [nm]) \<Rightarrow> load_cube L p nm
           | _ \<Rightarrow> Inl (TypeError ''expected one file and one raw name'')))"

text \<open>\<^verbatim>\<open>cube.convert_units(definition.units)\<close>\<close>

definition cube_convert_units :: "lib \<Rightarrow> cf_unit \<Rightarrow> cube \<Rightarrow> exn + cube" where
  "cube_convert_units L u c =
     (case convert L (units (meta c)) u of
        None \<Rightarrow> Inl (ValueError ''Unable to convert units'')
      | Some f \<Rightarrow> Inr (c\<lparr>data := nd_map f (data c), meta := (meta c)\<lparr>units := u\<rparr>\<rparr>))"

text \<open>The arguments of the call of \<^verbatim>\<open>utils.save_variable\<close>, which writes the file.\<close>

record saved =
  s_cube :: cube
  s_var_name :: "string option"
  s_out_dir :: string
  s_attributes :: "(string \<times> string) list"
  s_local_keys :: "string list"

text \<open>
  \<^verbatim>\<open>_extract_variable\<close>. The log records of the worker are left out. The cube is passed
  to \<^verbatim>\<open>_fix_coordinates\<close> by reference and nothing comes back from the call, so the
  function goes on with the object that it passed.
\<close>

definition extract_variable :: "lib \<Rightarrow> in_file \<Rightarrow> var \<Rightarrow> cfg \<Rightarrow> string \<Rightarrow> exn + saved" where
  "extract_variable L in_file v cf out_dir =
     (let attrs = AList.update ''mip'' (mip v) (cfg_attributes cf) in
      case map_of attrs ''project_id'' of
        None \<Rightarrow> Inl (KeyError ''project_id'')
      | Some project \<Rightarrow>
          andthen (get_variable L project (mip v) (short_name v)) (\<lambda>defn.
          andthen (load L in_file v) (\<lambda>c0.
          andthen (set_global_attributes L c0 attrs defn) (\<lambda>c1.
          let c2 = c1\<lparr>meta := (meta c1)\<lparr>var_name := d_short_name defn,
                                       standard_name := d_standard_name defn,
                                       long_name := d_long_name defn\<rparr>\<rparr>;
              c3 = c2\<lparr>data := nd_map (float32 L) (data c2)\<rparr>
          in
          andthen (fix_coordinates L 0 defn [c3]) (\<lambda>h.
          andthen (fix_frequency L (h ! 0) v) (\<lambda>c4.
          andthen (cube_convert_units L (d_units defn) c4) (\<lambda>c5.
            Inr \<lparr>s_cube = c5, s_var_name = var_name (meta c5), s_out_dir = out_dir,
                 s_attributes = attrs, s_local_keys = [''positive'']\<rparr>)))))))"

text \<open>The outcome of the call in the worker, as the dispatcher sees it.\<close>

definition extract_job :: "lib \<Rightarrow> in_file \<Rightarrow> var \<Rightarrow> cfg \<Rightarrow> string \<Rightarrow> exn option" where
  "extract_job L in_file v cf out_dir =
     (case extract_variable L in_file v cf out_dir of Inl err \<Rightarrow> Some err | Inr s \<Rightarrow> None)"

section \<open>Example inputs\<close>

definition plain_cube :: "string \<Rightarrow> cf_unit \<Rightarrow> nd \<Rightarrow> cube" where
  "plain_cube v u d =
     \<lparr>meta = \<lparr>standard_name = None, long_name = None, var_name = Some v, units = u,
              attributes = [(''source'', ''ECMWF'')], cell_methods = []\<rparr>,
      data = d, coords = []\<rparr>"

definition ex_tp :: cube where
  "ex_tp = plain_cube ''tp'' (U ''m'') (Arr [Sc (1 / 2), Sc 3])"

definition ex_e :: cube where
  "ex_e = plain_cube ''e'' (U ''unknown'') (Arr [Sc (1 / 2), Sc 3])"

definition ex_defn :: cmor_var where
  "ex_defn =
     \<lparr>d_short_name = Some ''pr'', d_standard_name = Some ''precipitation_flux'',
      d_long_name = Some ''Precipitation'', d_units = U ''kg m-2 s-1'',
      d_dimensions = [''longitude'', ''latitude'', ''time''], d_coordinates = []\<rparr>"

definition ex_clear :: "metadata \<Rightarrow> metadata" where
  "ex_clear m =
     m\<lparr>standard_name := None, long_name := None, var_name := None, attributes := [],
       cell_methods := []\<rparr>"

definition ex_atts :: "(string \<times> string) list \<Rightarrow> cube \<Rightarrow> exn + cube" where
  "ex_atts attrs c = Inr (c\<lparr>meta := (meta c)\<lparr>attributes := attrs\<rparr>\<rparr>)"




text \<open>
  A file of the 2m temperature on a grid of three latitudes, from north to south, and two
  longitudes, with four time steps, six hours apart, on 2000-01-01, in hours since
  1900-01-01; the CMOR entry of \<open>tas\<close>; a library that loads this cube for the raw name
  \<open>t2m\<close>, converts only between equal units and knows the calendar of 1999 and 2000.
\<close>

definition hours_since_1900 :: cf_unit where
  "hours_since_1900 = Since 3600000000 (18262 * 86400000000)"

definition ex_time :: "rat list \<Rightarrow> coord" where
  "ex_time ps =
     \<lparr>c_standard_name = Some ''time'', c_long_name = Some ''time'', c_var_name = Some ''time'',
      c_units = hours_since_1900, c_points = ps, c_bounds = None, c_dim = Some 0,
      c_axis = Some (CHR ''T'')\<rparr>"

definition ex_latitude :: coord where
  "ex_latitude =
     \<lparr>c_standard_name = Some ''latitude'', c_long_name = Some ''latitude'',
      c_var_name = Some ''latitude'', c_units = U ''degrees_north'', c_points = [90, 0, - 90],
      c_bounds = None, c_dim = Some 1, c_axis = Some (CHR ''Y'')\<rparr>"

definition ex_longitude :: coord where
  "ex_longitude =
     \<lparr>c_standard_name = Some ''longitude'', c_long_name = Some ''longitude'',
      c_var_name = Some ''longitude'', c_units = U ''degrees_east'', c_points = [0, 180],
      c_bounds = None, c_dim = Some 2, c_axis = Some (CHR ''X'')\<rparr>"

definition ex_field :: "rat \<Rightarrow> nd" where
  "ex_field t = Arr [Arr [Sc (t + 1), Sc (t + 2)], Arr [Sc (t + 3), Sc (t + 4)],
                     Arr [Sc (t + 5), Sc (t + 6)]]"

definition ex_t2m :: "rat list \<Rightarrow> cube" where
  "ex_t2m ps =
     \<lparr>meta = \<lparr>standard_name = None, long_name = Some ''2 metre temperature'',
              var_name = Some ''t2m'', units = U ''K'', attributes = [], cell_methods = []\<rparr>,
      data = Arr (map (\<lambda>p. ex_field (p - 876300)) ps),
      coords = [ex_time ps, ex_latitude, ex_longitude]\<rparr>"

definition one_day :: "rat list" where
  "one_day = [876576, 876582, 876588, 876594]"

definition two_days :: "rat list" where
  "two_days = [876576, 876588, 876600, 876612]"

definition ex_load :: "path \<Rightarrow> string \<Rightarrow> exn + cube" where
  "ex_load p nm =
     (if nm = ''t2m'' \<and> p = [''in'', ''ERA-Interim_t2m_daily_2000.nc''] then Inr (ex_t2m one_day)
      else if nm = ''t2m'' \<and> p = [''in'', ''ERA-Interim_t2m_daily_2001.nc''] then Inr (ex_t2m two_days)
      else if nm = ''t2m'' \<and> p = [''in'', ''ERA-Interim_t2m_monthly_2000.nc''] then Inr (ex_t2m one_day)
      else Inl (OtherError ''no such variable''))"

definition ex_coord_def :: "string \<Rightarrow> string \<Rightarrow> cf_unit \<Rightarrow> coord_def" where
  "ex_coord_def nm out u =
     \<lparr>cd_standard_name = Some nm, cd_out_name = Some out, cd_long_name = Some nm,
      cd_units = u\<rparr>"

definition ex_tas :: cmor_var where
  "ex_tas =
     \<lparr>d_short_name = Some ''tas'', d_standard_name = Some ''air_temperature'',
      d_long_name = Some ''Near-Surface Air Temperature'', d_units = U ''K'',
      d_dimensions = [''longitude'', ''latitude'', ''time'', ''height2m''],
      d_coordinates =
        [(CHR ''T'', ex_coord_def ''time'' ''time'' days_since_1850),
         (CHR ''X'', ex_coord_def ''longitude'' ''lon'' (U ''degrees_east'')),
         (CHR ''Y'', ex_coord_def ''latitude'' ''lat'' (U ''degrees_north'')),
         (CHR ''Z'', ex_coord_def ''height'' ''height'' (U ''m''))]\<rparr>"

definition ex_table :: "string \<Rightarrow> string \<Rightarrow> string \<Rightarrow> exn + cmor_var" where
  "ex_table project table nm =
     (if project = ''OBS'' \<and> nm = ''tas'' then Inr ex_tas else Inl (KeyError nm))"

definition ex_calendar :: "int \<Rightarrow> int \<times> int" where
  "ex_calendar d =
     (if 54786 \<le> d \<and> d < 55152 then (2000, d - 54785)
      else if 54421 \<le> d \<and> d < 54786 then (1999, d - 54420)
      else (0, d))"

definition ex_height :: "rat \<Rightarrow> cube \<Rightarrow> cube" where
  "ex_height h c =
     c\<lparr>coords := coords c @
        [\<lparr>c_standard_name = Some ''height'', c_long_name = Some ''height'',
          c_var_name = Some ''height'', c_units = U ''m'', c_points = [h], c_bounds = None,
          c_dim = None, c_axis = Some (CHR ''Z'')\<rparr>]\<rparr>"

text \<open>
  Cube objects of the leaf area index with floating point and with integer data, their
  attributes in the dictionary at address 0. Two ways in which a library may reset the
  identity in place: it gives the cube a new, empty dictionary, or it empties the
  dictionary that the cube holds.
\<close>

definition ex_lai :: "dtype \<Rightarrow> cube_object" where
  "ex_lai t =
     \<lparr>o_standard_name = Some ''leaf_area_index'', o_long_name = Some ''Leaf Area Index'',
      o_var_name = Some ''lai'', o_units = U ''1'', o_attributes = 0,
      o_cell_methods = [''time: mean''], o_dtype = t, o_data = Arr [Sc 150, Sc 320],
      o_coords = []\<rparr>"

definition ex_dicts :: dict_store where
  "ex_dicts = [[(''institution'', ''INM'')]]"

definition ex_clear_object :: "cube_object \<times> dict_store \<Rightarrow> cube_object \<times> dict_store" where
  "ex_clear_object st =
     (case st of
        (c, h) \<Rightarrow>
          (c\<lparr>o_standard_name := None, o_long_name := None, o_var_name := None,
             o_attributes := length h, o_cell_methods := []\<rparr>,
           h @ [[]]))"

definition ex_clear_in_place :: "cube_object \<times> dict_store \<Rightarrow> cube_object \<times> dict_store" where
  "ex_clear_in_place st =
     (case st of
        (c, h) \<Rightarrow>
          (c\<lparr>o_standard_name := None, o_long_name := None, o_var_name := None,
             o_cell_methods := []\<rparr>,
           h[o_attributes c := []]))"


definition ex_lib :: lib where
  "ex_lib =
     \<lparr>clear_identity = ex_clear,
      clear_object = ex_clear_object,
      same_unit = (\<lambda>a b. a = b),
      compatible = (\<lambda>a b. coords a = coords b),
      udunits = (\<lambda>a b. if a = b then Some (\<lambda>x. x) else None),
      float32 = (\<lambda>x. x),
      float64 = (\<lambda>x. x),
      calendar = ex_calendar,
      load_cube = ex_load,
      get_variable = ex_table,
      set_global_atts = ex_atts,
      add_scalar_height_coord = ex_height\<rparr>"

definition ex_monthly :: var where
  "ex_monthly =
     \<lparr>short_name = ''tas'', mip = ''Amon'', raw = [''t2m''],
      file' = Some ''ERA-Interim_t2m_monthly_*.nc'', files = None, operator = None\<rparr>"

definition ex_daily :: var where
  "ex_daily =
     \<lparr>short_name = ''tas'', mip = ''day'', raw = [''t2m''],
      file' = Some ''ERA-Interim_t2m_daily_*.nc'', files = None, operator = None\<rparr>"

text \<open>The cube of \<open>tas\<close> as it reaches \<^verbatim>\<open>_fix_frequency\<close>, with the CMOR name.\<close>

definition ex_tas_cube :: "rat list \<Rightarrow> cube" where
  "ex_tas_cube ps = (ex_t2m ps)\<lparr>meta := (meta (ex_t2m ps))\<lparr>var_name := Some ''tas''\<rparr>\<rparr>"

section \<open>Properties of the file resolver\<close>

lemma keys_dict_append:
  "map fst (dict_append k v d) = (if k \<in> set (map fst d) then map fst d else map fst d @ [k])"
  by (induction d) force+

lemma distinct_dict_append:
  "distinct (map fst d) \<Longrightarrow> distinct (map fst (dict_append k v d))"
  by (simp add: keys_dict_append)

lemma group_of_dict_append:
  "group_of (dict_append k v d) k' = (if k = k' then group_of d k @ [v] else group_of d k')"
  by (induction d) (auto simp: group_of_def)

lemma distinct_add_items:
  "distinct (map fst d) \<Longrightarrow> distinct (map fst (add_items items d))"
  by (induction items arbitrary: d) (auto simp: distinct_dict_append)

lemma group_of_add_items:
  "group_of (add_items items d) y = group_of d y @ filter (\<lambda>f. year_of f = y) items"
  by (induction items arbitrary: d) (auto simp: group_of_dict_append)

lemma keys_add_items:
  "set (map fst (add_items items d)) = set (map fst d) \<union> year_of ` set items"
proof (induction items arbitrary: d)
  case Nil
  then show ?case by simp
next
  case (Cons a items)
  have "set (map fst (dict_append (year_of a) a d)) = insert (year_of a) (set (map fst d))"
    by (auto simp: keys_dict_append)
  with Cons.IH[of "dict_append (year_of a) a d"] show ?case by auto
qed

lemma distinct_scan_patterns:
  "distinct (map fst d) \<Longrightarrow> distinct (map fst (scan_patterns glob in_dir pats d))"
  by (induction pats arbitrary: d) (auto simp: distinct_add_items)

lemma group_of_scan_patterns:
  "group_of (scan_patterns glob in_dir pats d) y =
     group_of d y @ concat (map (matched glob in_dir y) pats)"
  by (induction pats arbitrary: d) (auto simp: group_of_add_items matched_def)

lemma group_of_mem:
  "distinct (map fst d) \<Longrightarrow> (k, fs) \<in> set d \<Longrightarrow> group_of d k = fs"
  by (simp add: group_of_def)

lemma dict_getitem_present:
  "distinct (map fst d) \<Longrightarrow> k \<in> set (map fst d) \<Longrightarrow> dict_getitem d k = (group_of d k, d)"
  by (auto simp: dict_getitem_def group_of_def map_of_eq_None_iff split: option.splits)

lemma keys_dict_pop: "map fst (dict_pop k d) = filter (\<lambda>k'. k' \<noteq> k) (map fst d)"
  by (induction d) (auto simp: dict_pop_def)

lemma group_of_dict_pop:
  "k' \<noteq> k \<Longrightarrow> group_of (dict_pop k d) k' = group_of d k'"
  by (induction d) (auto simp: dict_pop_def group_of_def)

lemma check_complete_eq:
  "distinct (map fst d) \<Longrightarrow> distinct ks \<Longrightarrow> set ks \<subseteq> set (map fst d) \<Longrightarrow>
   check_complete v n ks (d, lg) =
     (filter (\<lambda>(k, fs). k \<in> set ks \<longrightarrow> length fs = n) d,
      lg @ map (\<lambda>k. needs_record v k n) (filter (\<lambda>k. length (group_of d k) \<noteq> n) ks))"
proof (induction ks arbitrary: d lg)
  case Nil
  then show ?case by simp
next
  case (Cons k ks)
  have get: "dict_getitem d k = (group_of d k, d)"
    using Cons.prems by (simp add: dict_getitem_present)
  show ?case
  proof (cases "length (group_of d k) = n")
    case True
    have "filter (\<lambda>(k', fs). k' \<in> set (k # ks) \<longrightarrow> length fs = n) d =
          filter (\<lambda>(k', fs). k' \<in> set ks \<longrightarrow> length fs = n) d"
      using Cons.prems(1) True by (intro filter_cong) (auto simp: group_of_mem)
    with True get Cons show ?thesis by simp
  next
    case False
    let ?d = "dict_pop k d"
    have d1: "distinct (map fst ?d)" using Cons.prems(1) by (simp add: keys_dict_pop)
    have d2: "set ks \<subseteq> set (map fst ?d)" using Cons.prems by (auto simp: keys_dict_pop)
    have d3: "distinct ks" using Cons.prems by simp
    have f1: "filter (\<lambda>(k', fs). k' \<in> set ks \<longrightarrow> length fs = n) ?d =
          filter (\<lambda>(k', fs). k' \<in> set (k # ks) \<longrightarrow> length fs = n) d"
      using Cons.prems(1) False unfolding dict_pop_def filter_filter
      by (intro filter_cong) (auto simp: group_of_mem)
    have f2: "filter (\<lambda>k'. length (group_of ?d k') \<noteq> n) ks =
              filter (\<lambda>k'. length (group_of d k') \<noteq> n) ks"
    proof (intro filter_cong refl)
      fix x assume "x \<in> set ks"
      then have "x \<noteq> k" using Cons.prems(2) by auto
      then show "(length (group_of ?d x) \<noteq> n) = (length (group_of d x) \<noteq> n)"
        by (simp add: group_of_dict_pop)
    qed
    show ?thesis
      using False get Cons.IH[OF d1 d3 d2] f1 f2 by simp
  qed
qed

lemma get_files_eq:
  assumes "files v = Some pats"
  shows "get_files glob in_dir v =
     (let d = scan_patterns glob in_dir pats [] in
      Inr (filter (\<lambda>(k, fs). length fs = length pats) d,
           map (\<lambda>k. needs_record v k (length pats))
             (filter (\<lambda>k. length (group_of d k) \<noteq> length pats) (map fst d))))"
proof -
  let ?d = "scan_patterns glob in_dir pats []"
  have dist: "distinct (map fst ?d)" by (simp add: distinct_scan_patterns)
  have "filter (\<lambda>(k, fs). k \<in> set (map fst ?d) \<longrightarrow> length fs = length pats) ?d =
        filter (\<lambda>(k, fs). length fs = length pats) ?d"
    by (intro filter_cong) force+
  with check_complete_eq[OF dist dist subset_refl, of v "length pats" "[]"] assms
  show ?thesis by (simp add: get_files_def Let_def)
qed

lemma concat_short:
  "\<forall>x \<in> set xs. length (f x) \<le> 1 \<Longrightarrow> length (concat (map f xs)) \<le> length xs"
  by (induction xs) (auto simp: le_Suc_eq)

lemma concat_singletons:
  "\<forall>x \<in> set xs. length (f x) \<le> 1 \<Longrightarrow> length (concat (map f xs)) = length xs \<Longrightarrow>
   list_all2 (\<lambda>x y. f x = [y]) xs (concat (map f xs))"
proof (induction xs)
  case Nil
  then show ?case by simp
next
  case (Cons x xs)
  have le: "length (concat (map f xs)) \<le> length xs"
    using Cons.prems(1) by (intro concat_short) simp
  have "length (f x) \<le> 1" using Cons.prems(1) by simp
  with le Cons.prems(2) have one: "length (f x) = 1" and rest: "length (concat (map f xs)) = length xs"
    by auto
  from one obtain y where y: "f x = [y]" by (cases "f x") auto
  with Cons.IH rest Cons.prems(1) show ?case by simp
qed

lemma matched_single:
  "matched glob in_dir y p = [f] \<Longrightarrow> f \<in> set (glob in_dir p) \<and> year_of f = y"
proof -
  assume "matched glob in_dir y p = [f]"
  then have "f \<in> set (filter (\<lambda>f. year_of f = y) (sort (glob in_dir p)))"
    by (simp add: matched_def)
  then show ?thesis by simp
qed

lemma keys_scan_patterns:
  "set (map fst (scan_patterns glob in_dir pats d)) =
     set (map fst d) \<union> year_of ` (\<Union>p \<in> set pats. set (glob in_dir p))"
proof (induction pats arbitrary: d)
  case Nil
  then show ?case by simp
next
  case (Cons a pats)
  have "set (map fst (add_items (sort (glob in_dir a)) d)) =
        set (map fst d) \<union> year_of ` set (glob in_dir a)"
    by (simp only: keys_add_items set_sort)
  with Cons.IH[of "add_items (sort (glob in_dir a)) d"] show ?case
    by (simp only: scan_patterns.simps) auto
qed

text \<open>
  Claim C6. Every group in the dictionary returned by \<^verbatim>\<open>_get_files\<close> has as many
  paths as the variable has glob patterns.
\<close>

theorem get_files_group_length:
  assumes "get_files glob in_dir v = Inr (d, lg)" and "files v = Some pats"
  shows "\<forall>(y, g) \<in> set d. length g = length pats"
  using assms by (auto simp: get_files_eq Let_def)

theorem get_files_group_length_witness:
  "get_files ex_glob ''in'' ex_var =
     Inr ([(''2000'', [[''in'', ''ERA-Interim_ssr_monthly_2000.nc''],
                       [''in'', ''ERA-Interim_ssrd_monthly_2000.nc'']])],
          [needs_record ex_var ''2001'' 2])
   \<and> files ex_var = Some [''ERA-Interim_ssr_monthly_*.nc'', ''ERA-Interim_ssrd_monthly_*.nc'']
   \<and> length [[''in'', ''ERA-Interim_ssr_monthly_2000.nc''],
               [''in'', ''ERA-Interim_ssrd_monthly_2000.nc'']] =
       length [''ERA-Interim_ssr_monthly_*.nc'', ''ERA-Interim_ssrd_monthly_*.nc'']"
proof -
  let ?pats = "[''ERA-Interim_ssr_monthly_*.nc'', ''ERA-Interim_ssrd_monthly_*.nc'']"
  let ?g = "[[''in'', ''ERA-Interim_ssr_monthly_2000.nc''],
             [''in'', ''ERA-Interim_ssrd_monthly_2000.nc'']]"
  have run: "get_files ex_glob ''in'' ex_var =
     Inr ([(''2000'', ?g)], [needs_record ex_var ''2001'' 2])"
    by code_simp
  have pats: "files ex_var = Some ?pats"
    by (simp add: ex_var_def)
  have mem: "(''2000'', ?g) \<in> set [(''2000'', ?g)]" by simp
  from bspec [OF get_files_group_length [OF run pats] mem]
  have "length ?g = length ?pats" unfolding prod.case .
  with run pats show ?thesis by (intro conjI)
qed

text \<open>
  Claim C5 as stated asks for one matched file per pattern in every emitted group. The
  completeness check only counts: a pattern that matches two files of one year makes up
  for a pattern that matches none.
\<close>

theorem get_files_one_per_pattern_counterexample:
  "get_files ex_glob2 ''in'' ex_var =
     Inr ([(''2000'', [[''in'', ''ERA-Interim_ssr_monthly_2000.nc''],
                       [''in'', ''ERA-Interim_ssr_monthly_v2_2000.nc'']])], [])
   \<and> \<not> one_per_pattern ex_glob2 ''in''
          [''ERA-Interim_ssr_monthly_*.nc'', ''ERA-Interim_ssrd_monthly_*.nc'']
          [[''in'', ''ERA-Interim_ssr_monthly_2000.nc''],
           [''in'', ''ERA-Interim_ssr_monthly_v2_2000.nc'']]"
  by code_simp

text \<open>
  Claim C5, amended. Each emitted group is the concatenation, in pattern order, of every
  pattern's sorted matches that carry the group's year, and it has as many files as there
  are patterns; when no pattern matches more than one file of that year, the group holds
  exactly one matched file per pattern, in pattern order. A year whose matched files do
  not number as the patterns is logged and is absent from the result.
\<close>

theorem get_files_groups:
  assumes "get_files glob in_dir v = Inr (d, lg)" and "files v = Some pats"
  shows "(\<forall>(y, g) \<in> set d.
            g = concat (map (matched glob in_dir y) pats) \<and> length g = length pats \<and>
            ((\<forall>p \<in> set pats. length (matched glob in_dir y p) \<le> 1) \<longrightarrow>
               one_per_pattern glob in_dir pats g \<and> (\<forall>f \<in> set g. year_of f = y))) \<and>
         (\<forall>y \<in> year_of ` (\<Union>p \<in> set pats. set (glob in_dir p)).
            length (concat (map (matched glob in_dir y) pats)) \<noteq> length pats \<longrightarrow>
            y \<notin> fst ` set d \<and> needs_record v y (length pats) \<in> set lg)"
proof -
  let ?D = "scan_patterns glob in_dir pats []"
  have dist: "distinct (map fst ?D)" by (simp add: distinct_scan_patterns)
  have grp: "group_of ?D y = concat (map (matched glob in_dir y) pats)" for y
  proof -
    have "group_of [] y = []" by (simp add: group_of_def)
    then show ?thesis by (simp add: group_of_scan_patterns)
  qed
  have d: "d = filter (\<lambda>(k, fs). length fs = length pats) ?D"
    and lg: "lg = map (\<lambda>k. needs_record v k (length pats))
                   (filter (\<lambda>k. length (group_of ?D k) \<noteq> length pats) (map fst ?D))"
    using assms by (simp_all add: get_files_eq Let_def)
  have emitted: "g = concat (map (matched glob in_dir y) pats) \<and> length g = length pats"
    if "(y, g) \<in> set d" for y g
  proof -
    from that d have "(y, g) \<in> set ?D" and len: "length g = length pats" by auto
    with dist have "group_of ?D y = g" by (simp add: group_of_mem)
    with grp len show ?thesis by simp
  qed
  have single: "one_per_pattern glob in_dir pats g \<and> (\<forall>f \<in> set g. year_of f = y)"
    if "(y, g) \<in> set d" and "\<forall>p \<in> set pats. length (matched glob in_dir y p) \<le> 1" for y g
  proof -
    from emitted[OF that(1)] have g: "g = concat (map (matched glob in_dir y) pats)"
      and len: "length (concat (map (matched glob in_dir y) pats)) = length pats" by auto
    from concat_singletons[OF that(2) len]
    have "list_all2 (\<lambda>p f. matched glob in_dir y p = [f]) pats g" using g by simp
    then have "list_all2 (\<lambda>p f. f \<in> set (glob in_dir p) \<and> year_of f = y) pats g"
      by (rule list_all2_mono) (auto dest: matched_single)
    then show ?thesis
      unfolding one_per_pattern_def
      by (auto simp: list_all2_conv_all_nth in_set_conv_nth)
  qed
  have dropped: "y \<notin> fst ` set d \<and> needs_record v y (length pats) \<in> set lg"
    if "y \<in> year_of ` (\<Union>p \<in> set pats. set (glob in_dir p))"
      and "length (concat (map (matched glob in_dir y) pats)) \<noteq> length pats" for y
  proof -
    from that(1) have key: "y \<in> set (map fst ?D)"
      unfolding keys_scan_patterns by simp
    have "y \<notin> fst ` set d"
    proof
      assume "y \<in> fst ` set d"
      then obtain g where "(y, g) \<in> set d" by auto
      from emitted[OF this] that(2) show False by auto
    qed
    moreover have "needs_record v y (length pats) \<in> set lg"
      using key that(2) unfolding lg grp by auto
    ultimately show ?thesis by simp
  qed
  show ?thesis using emitted single dropped by blast
qed

theorem get_files_groups_witness:
  "get_files ex_glob ''in'' ex_var =
     Inr ([(''2000'', [[''in'', ''ERA-Interim_ssr_monthly_2000.nc''],
                       [''in'', ''ERA-Interim_ssrd_monthly_2000.nc'']])],
          [needs_record ex_var ''2001'' 2])
   \<and> one_per_pattern ex_glob ''in''
         [''ERA-Interim_ssr_monthly_*.nc'', ''ERA-Interim_ssrd_monthly_*.nc'']
         [[''in'', ''ERA-Interim_ssr_monthly_2000.nc''],
          [''in'', ''ERA-Interim_ssrd_monthly_2000.nc'']]
   \<and> needs_record ex_var ''2001'' 2 \<in> set [needs_record ex_var ''2001'' 2]"
proof -
  let ?pats = "[''ERA-Interim_ssr_monthly_*.nc'', ''ERA-Interim_ssrd_monthly_*.nc'']"
  let ?g = "[[''in'', ''ERA-Interim_ssr_monthly_2000.nc''],
             [''in'', ''ERA-Interim_ssrd_monthly_2000.nc'']]"
  have run: "get_files ex_glob ''in'' ex_var =
     Inr ([(''2000'', ?g)], [needs_record ex_var ''2001'' 2])"
    by code_simp
  have pats: "files ex_var = Some ?pats"
    by (simp add: ex_var_def)
  have one: "\<forall>p \<in> set ?pats. length (matched ex_glob ''in'' ''2000'' p) \<le> 1"
    by code_simp
  have key: "''2001'' \<in> year_of ` (\<Union>p \<in> set ?pats. set (ex_glob ''in'' p))"
    by code_simp
  have short: "length (concat (map (matched ex_glob ''in'' ''2001'') ?pats)) \<noteq> length ?pats"
    by code_simp
  note main = get_files_groups [OF run pats]
  have mem: "(''2000'', ?g) \<in> set [(''2000'', ?g)]" by simp
  from bspec [OF conjunct1 [OF main] mem]
  have "(\<forall>p \<in> set ?pats. length (matched ex_glob ''in'' ''2000'' p) \<le> 1) \<longrightarrow>
        one_per_pattern ex_glob ''in'' ?pats ?g \<and> (\<forall>f \<in> set ?g. year_of f = ''2000'')"
    unfolding prod.case by (rule conjunct2 [THEN conjunct2])
  from this one have "one_per_pattern ex_glob ''in'' ?pats ?g \<and> (\<forall>f \<in> set ?g. year_of f = ''2000'')"
    by (rule mp)
  then have a: "one_per_pattern ex_glob ''in'' ?pats ?g"
    by (rule conjunct1)
  have b: "needs_record ex_var ''2001'' 2 \<in> set [needs_record ex_var ''2001'' 2]"
    using bspec [OF conjunct2 [OF main] key] short by simp
  from run a b show ?thesis by (intro conjI)
qed

section \<open>Properties of the dispatcher\<close>

lemma n_workers_eq: "n_workers n = (2 * n) div 3"
proof -
  have "(of_nat n :: rat) / 1.5 = of_int (2 * int n) / of_int 3" by simp
  then have "\<lfloor>(of_nat n :: rat) / 1.5\<rfloor> = (2 * int n) div 3"
    by (simp only: floor_divide_of_int_eq)
  then show ?thesis by (simp add: n_workers_def nat_div_distrib nat_mult_distrib)
qed











lemma cmorization_eq:
  assumes "map_of (cfg_attributes c) ''comment'' = Some comment"
    and "cfg_cmor_table c = Some t" and "cpu_count ev = Some n"
  shows "cmorization ev job in_dir out_dir c =
     (let c' = prepare ev comment c;
          futures = fst (submit_all ev in_dir (cfg_variables c'));
          pre = workers_record n # snd (submit_all ev in_dir (cfg_variables c'));
          res = collect (as_completed ev (run_pool job c' out_dir futures)) pre
      in \<lparr>max_workers = Some 1, submitted = futures, attempted = futures,
           run_log = fst res, raised = snd res\<rparr>)"
  using assms by (simp add: cmorization_def Let_def split: prod.splits)




lemma cmorization_max_workers:
  assumes "map_of (cfg_attributes c) ''comment'' = Some comment"
    and "cfg_cmor_table c = Some t" and "cpu_count ev = Some n"
  shows "max_workers (cmorization ev job in_dir out_dir c) = Some 1"
  by (simp add: cmorization_eq [OF assms] Let_def)

text \<open>
  Claim C2 at four processing units: the number of workers that is computed and logged is
  two, the size that the claim gives; the pool is made with one worker.
\<close>

theorem cmorization_pool_size_four_cpus:
  "cpu_count ex_env = Some 4 \<and>
   claimed_pool_size 4 = 2 \<and>
   hd (run_log (cmorization ex_env extract_ok ''in'' ''out'' ex_cfg)) =
     info ''Using at most %s workers'' [Num 2] \<and>
   max_workers (cmorization ex_env extract_ok ''in'' ''out'' ex_cfg) = Some 1"
  by code_simp

section \<open>Properties of the inmcm4 fixes and of the netcre derivation\<close>

lemma andthen_Inr: "andthen m f = Inr y \<Longrightarrow> \<exists>x. m = Inr x \<and> f x = Inr y"
  by (cases m) (simp_all add: andthen_def)








text \<open>
  With a library that resets the identity by emptying the dictionary which the cube holds,
  the tuple read before the multiplication holds the emptied dictionary too, and the
  attributes are not restored.
\<close>

lemma fix_data_shared_dictionary:
  "map_sum id attributes_of
     (gpp_fix_data (ex_lib\<lparr>clear_object := ex_clear_in_place\<rparr>) (ex_lai FloatData, ex_dicts)) =
     Inr [] \<and>
   map_sum id attributes_of
     (lai_fix_data (ex_lib\<lparr>clear_object := ex_clear_in_place\<rparr>) (ex_lai FloatData, ex_dicts)) =
     Inr []"
  by code_simp

lemma rank_flat: "rank (Arr (map Sc xs)) = 1"
  by (cases xs) simp_all

lemma nd_broadcast_flat:
  assumes "length xs = length ys"
  shows "nd_broadcast f (Arr (map Sc xs)) (Arr (map Sc ys)) = Some (Arr (map Sc (map2 f xs ys)))"
proof -
  from assms have "those (map2 (\<lambda>g y. g y) (map (nd_stretch f) (map Sc xs)) (map Sc ys)) =
        Some (map Sc (map2 f xs ys))"
    by (induction xs ys rule: list_induct2) simp_all
  moreover have "nd_broadcast f (Arr (map Sc xs)) (Arr (map Sc ys)) =
      nd_stretch f (Arr (map Sc xs)) (Arr (map Sc ys))"
    unfolding nd_broadcast_def rank_flat by simp
  ultimately show ?thesis using assms by simp
qed

lemma nd_broadcast_repeat:
  assumes "length xs \<noteq> 1"
  shows "nd_broadcast f (Arr (map Sc xs)) (Arr [Sc y]) = Some (Arr (map (\<lambda>x. Sc (f x y)) xs))"
proof -
  have "those (map (\<lambda>g. g (Sc y)) (map (nd_stretch f) (map Sc xs))) =
        Some (map (\<lambda>x. Sc (f x y)) xs)"
    by (induction xs) simp_all
  moreover have "rank (Arr [Sc y]) = 1" by simp
  then have "nd_broadcast f (Arr (map Sc xs)) (Arr [Sc y]) =
      nd_stretch f (Arr (map Sc xs)) (Arr [Sc y])"
    unfolding nd_broadcast_def rank_flat by simp
  ultimately show ?thesis using assms by simp
qed





lemma netcre_calculate_raises:
  "lwcre cubes = Inl err \<Longrightarrow> netcre_calculate L lwcre swcre cubes = Inl err"
  "lwcre cubes = Inr l \<Longrightarrow> swcre cubes = Inl err \<Longrightarrow>
     netcre_calculate L lwcre swcre cubes = Inl err"
  "lwcre cubes = Inr l \<Longrightarrow> swcre cubes = Inr s \<Longrightarrow>
     \<not> same_unit L (units (meta l)) (units (meta s)) \<or> \<not> compatible L l s \<or>
     nd_broadcast (+) (data l) (data s) = None \<Longrightarrow>
     \<exists>err. netcre_calculate L lwcre swcre cubes = Inl err"
  by (auto simp: netcre_calculate_def andthen_def cube_add_def)

section \<open>Properties of the attribute and unit rules\<close>

lemma nd_map_comp: "nd_map f (nd_map g d) = nd_map (\<lambda>x. f (g x)) d"
  by (induction d) simp_all

lemma nd_map_ident: "nd_map (\<lambda>x. x) d = d"
  by (induction d) (simp_all add: map_idI)

text \<open>
  Claim C8. The three statements that scale the data multiply by 1000, multiply by 100 and
  divide by 9.80665; scaling back by the inverse factor gives the original values, exactly
  over the rationals. The other statements leave the data as they are.
\<close>

theorem unit_rules_round_trip:
  "data (snd mass_flux defn c) = nd_map (\<lambda>x. x * 1000) (data c) \<and>
   nd_map (\<lambda>x. x / 1000) (data (snd mass_flux defn c)) = data c \<and>
   data (snd percentage defn c) = nd_map (\<lambda>x. x * 100) (data c) \<and>
   nd_map (\<lambda>x. x / 100) (data (snd percentage defn c)) = data c \<and>
   data (snd geopotential_height defn c) = nd_map (\<lambda>x. x / 9.80665) (data c) \<and>
   nd_map (\<lambda>x. x * 9.80665) (data (snd geopotential_height defn c)) = data c \<and>
   data (snd metres defn c) = data c \<and>
   data (snd per_day defn c) = data c \<and>
   data (snd stress_positive defn c) = data c"
  by (simp add: mass_flux_def percentage_def geopotential_height_def metres_def per_day_def
      stress_positive_def set_units_def set_data_def set_attribute_def Let_def nd_map_comp
      nd_map_ident)

lemma rule_keeps_var_name:
  "r \<in> set rule_table \<Longrightarrow> var_name (meta (snd r defn c)) = var_name (meta c)"
  by (auto simp: rule_table_def mass_flux_def percentage_def geopotential_height_def metres_def
      per_day_def stress_positive_def set_units_def set_data_def set_attribute_def Let_def)

lemma applies_after_rule:
  "r \<in> set rule_table \<Longrightarrow> applies r' (apply_rule defn r c) = applies r' c"
  by (simp add: applies_def var_in_def apply_rule_def rule_keeps_var_name)

lemma apply_rules_skip:
  "set rs \<subseteq> set rule_table \<Longrightarrow> \<forall>r \<in> set rs. \<not> applies r c \<Longrightarrow> apply_rules defn rs c = c"
  unfolding apply_rules_def by (induction rs) (simp_all add: apply_rule_def)

lemma apply_rules_one:
  assumes "set rs \<subseteq> set rule_table" and "distinct rs" and "r0 \<in> set rs"
    and "applies r0 c" and "\<forall>r \<in> set rs. r \<noteq> r0 \<longrightarrow> \<not> applies r c"
  shows "apply_rules defn rs c = snd r0 defn c"
proof -
  from split_list [OF assms(3)] obtain xs ys where rs: "rs = xs @ r0 # ys" by blast
  with assms(2) have out: "r0 \<notin> set xs" "r0 \<notin> set ys" by auto
  have sub: "set xs \<subseteq> set rule_table" "set ys \<subseteq> set rule_table" "r0 \<in> set rule_table"
    using assms(1) rs by auto
  have "\<forall>r \<in> set xs. \<not> applies r c" using assms(5) rs out by auto
  then have before: "apply_rules defn xs c = c" by (rule apply_rules_skip [OF sub(1)])
  have "\<forall>r \<in> set ys. \<not> applies r (snd r0 defn c)"
  proof
    fix r assume "r \<in> set ys"
    with assms(5) rs out have "\<not> applies r c" by auto
    moreover have "applies r (apply_rule defn r0 c) = applies r c"
      by (rule applies_after_rule [OF sub(3)])
    ultimately show "\<not> applies r (snd r0 defn c)" using assms(4) by (simp add: apply_rule_def)
  qed
  then have after: "apply_rules defn ys (snd r0 defn c) = snd r0 defn c"
    by (rule apply_rules_skip [OF sub(2)])
  have "apply_rules defn rs c = apply_rules defn ys (apply_rule defn r0 (apply_rules defn xs c))"
    by (simp add: rs apply_rules_def)
  with before after assms(4) show ?thesis by (simp add: apply_rule_def)
qed

lemma rule_names:
  "map fst rule_table =
     [[''e'', ''sf''], [''e'', ''sf'', ''tp'', ''pev''], [''ssr'', ''ssrd'', ''tisr'', ''hfds''],
      [''iews'', ''inss''], [''lsm'', ''tcc''], [''z'']]"
  by (simp add: rule_table_def mass_flux_def percentage_def geopotential_height_def metres_def
      per_day_def stress_positive_def)

lemma distinct_rule_table: "distinct rule_table"
proof -
  have "distinct (map fst rule_table)" unfolding rule_names by simp
  then show ?thesis by (simp add: distinct_map)
qed

lemma rule_name_lists:
  "fst metres = [''e'', ''sf'']"
  "fst mass_flux = [''e'', ''sf'', ''tp'', ''pev'']"
  "fst per_day = [''ssr'', ''ssrd'', ''tisr'', ''hfds'']"
  "fst stress_positive = [''iews'', ''inss'']"
  "fst percentage = [''lsm'', ''tcc'']"
  "fst geopotential_height = [''z'']"
  by (simp_all add: mass_flux_def percentage_def geopotential_height_def metres_def
      per_day_def stress_positive_def)

lemma applicable_unique:
  assumes "\<not> var_in c [''e'', ''sf'']" and "r \<in> set rule_table" and "r' \<in> set rule_table"
    and "applies r c" and "applies r' c"
  shows "r = r'"
proof -
  from assms(1) obtain v where v: "var_name (meta c) = None \<or>
      (var_name (meta c) = Some v \<and> v \<noteq> ''e'' \<and> v \<noteq> ''sf'')"
    by (auto simp: var_in_def split: option.splits)
  from assms(2-5) v show ?thesis
    by (auto simp: rule_table_def applies_def var_in_def rule_name_lists)
qed

lemma applicable_at_most_one:
  assumes "\<not> var_in c [''e'', ''sf'']"
  shows "length (filter (\<lambda>r. applies r c) rule_table) \<le> 1"
proof -
  from assms obtain v where "var_name (meta c) = None \<or>
      (var_name (meta c) = Some v \<and> v \<noteq> ''e'' \<and> v \<noteq> ''sf'')"
    by (auto simp: var_in_def split: option.splits)
  then show ?thesis
    by (auto simp: rule_table_def applies_def var_in_def rule_name_lists)
qed

lemma apply_rules_any_order:
  assumes water: "\<not> var_in c [''e'', ''sf'']" and perm: "mset rs = mset rule_table"
  shows "apply_rules defn rs c = apply_rules defn rule_table c"
proof -
  from perm have set_rs: "set rs = set rule_table" by (rule mset_eq_setD)
  from perm have dist: "distinct rs"
    using distinct_rule_table by (metis mset_eq_imp_distinct_iff)
  show ?thesis
  proof (cases "\<exists>r \<in> set rule_table. applies r c")
    case True
    then obtain r0 where r0: "r0 \<in> set rule_table" "applies r0 c" by blast
    have others: "\<forall>r \<in> set rule_table. r \<noteq> r0 \<longrightarrow> \<not> applies r c"
      using applicable_unique [OF water _ r0(1) _ r0(2)] by blast
    have "apply_rules defn rs c = snd r0 defn c"
      by (rule apply_rules_one) (use set_rs dist r0 others in auto)
    moreover have "apply_rules defn rule_table c = snd r0 defn c"
      by (rule apply_rules_one) (use distinct_rule_table r0 others in auto)
    ultimately show ?thesis by simp
  next
    case False
    then have "apply_rules defn rs c = c" "apply_rules defn rule_table c = c"
      using set_rs by (auto intro!: apply_rules_skip)
    then show ?thesis by simp
  qed
qed

lemma set_global_attributes_table:
  "set_global_atts L attrs c = Inr c0 \<Longrightarrow>
   set_global_attributes L c attrs defn = Inr (apply_rules defn rule_table c0)"
  by (simp add: set_global_attributes_def andthen_def apply_rules_def rule_table_def Let_def)

lemma water_rules:
  assumes "var_in c [''e'', ''sf'']"
  shows "filter (\<lambda>r. applies r c) rule_table = [metres, mass_flux]"
    and "apply_rules defn rule_table c = snd mass_flux defn (snd metres defn c)"
proof -
  from assms obtain v where v: "var_name (meta c) = Some v" "v = ''e'' \<or> v = ''sf''"
    by (auto simp: var_in_def split: option.splits)
  then have here: "applies metres c" "applies mass_flux c" "\<not> applies per_day c"
    "\<not> applies stress_positive c" "\<not> applies percentage c" "\<not> applies geopotential_height c"
    by (auto simp: applies_def var_in_def rule_name_lists)
  then show "filter (\<lambda>r. applies r c) rule_table = [metres, mass_flux]"
    by (simp add: rule_table_def)
  have m: "metres \<in> set rule_table" "mass_flux \<in> set rule_table"
    by (simp_all add: rule_table_def)
  let ?c1 = "apply_rule defn metres c"
  let ?c2 = "apply_rule defn mass_flux ?c1"
  have c1: "?c1 = snd metres defn c" using here by (simp add: apply_rule_def)
  have a1: "applies r ?c1 = applies r c" for r by (rule applies_after_rule [OF m(1)])
  have c2: "?c2 = snd mass_flux defn (snd metres defn c)"
    using here a1 c1 by (simp add: apply_rule_def)
  have a2: "applies r ?c2 = applies r c" for r
    using applies_after_rule [OF m(2), of r defn ?c1] a1 by simp
  have "apply_rules defn [per_day, stress_positive, percentage, geopotential_height] ?c2 = ?c2"
    by (rule apply_rules_skip) (use here a2 in \<open>auto simp: rule_table_def\<close>)
  then have "apply_rules defn rule_table c = ?c2"
    by (simp add: apply_rules_def rule_table_def)
  with c2 show "apply_rules defn rule_table c = snd mass_flux defn (snd metres defn c)" by simp
qed

text \<open>
  Claim C4, amended. For a raw name other than \<open>e\<close> and \<open>sf\<close> at most one statement
  applies, and running the statements in any order gives the cube that
  \<^verbatim>\<open>_set_global_attributes\<close> gives. For \<open>e\<close> and \<open>sf\<close> two statements apply: the units
  are first set to metres and then turned into a mass flux, the data multiplied by 1000.
\<close>

theorem set_global_attributes_rule_order:
  assumes "set_global_atts L attrs c = Inr c0"
  shows "(\<not> var_in c0 [''e'', ''sf''] \<longrightarrow>
            length (filter (\<lambda>r. applies r c0) rule_table) \<le> 1 \<and>
            (\<forall>rs. mset rs = mset rule_table \<longrightarrow>
               set_global_attributes L c attrs defn = Inr (apply_rules defn rs c0))) \<and>
         (var_in c0 [''e'', ''sf''] \<longrightarrow>
            filter (\<lambda>r. applies r c0) rule_table = [metres, mass_flux] \<and>
            set_global_attributes L c attrs defn =
              Inr (snd mass_flux defn (snd metres defn c0)))"
proof (intro conjI impI allI)
  note tab = set_global_attributes_table [OF assms, of defn]
  {
    assume w: "\<not> var_in c0 [''e'', ''sf'']"
    show "length (filter (\<lambda>r. applies r c0) rule_table) \<le> 1"
      by (rule applicable_at_most_one [OF w])
  next
    fix rs
    assume w: "\<not> var_in c0 [''e'', ''sf'']" and p: "mset rs = mset rule_table"
    show "set_global_attributes L c attrs defn = Inr (apply_rules defn rs c0)"
      unfolding tab apply_rules_any_order [OF w p] by (rule refl)
  next
    assume w: "var_in c0 [''e'', ''sf'']"
    show "filter (\<lambda>r. applies r c0) rule_table = [metres, mass_flux]"
      by (rule water_rules(1) [OF w])
  next
    assume w: "var_in c0 [''e'', ''sf'']"
    show "set_global_attributes L c attrs defn = Inr (snd mass_flux defn (snd metres defn c0))"
      unfolding tab water_rules(2) [OF w] by (rule refl)
  }
qed

theorem set_global_attributes_rule_order_witness:
  "set_global_attributes ex_lib ex_tp [(''tier'', ''3'')] ex_defn =
     Inr (apply_rules ex_defn (rev rule_table)
            (ex_tp\<lparr>meta := (meta ex_tp)\<lparr>attributes := [(''tier'', ''3'')]\<rparr>\<rparr>)) \<and>
   filter (\<lambda>r. applies r (ex_e\<lparr>meta := (meta ex_e)\<lparr>attributes := [(''tier'', ''3'')]\<rparr>\<rparr>))
     rule_table = [metres, mass_flux]"
proof -
  let ?tp = "ex_tp\<lparr>meta := (meta ex_tp)\<lparr>attributes := [(''tier'', ''3'')]\<rparr>\<rparr>"
  let ?e = "ex_e\<lparr>meta := (meta ex_e)\<lparr>attributes := [(''tier'', ''3'')]\<rparr>\<rparr>"
  have tp: "set_global_atts ex_lib [(''tier'', ''3'')] ex_tp = Inr ?tp"
    by (simp add: ex_lib_def ex_atts_def)
  have e: "set_global_atts ex_lib [(''tier'', ''3'')] ex_e = Inr ?e"
    by (simp add: ex_lib_def ex_atts_def)
  have dry: "\<not> var_in ?tp [''e'', ''sf'']"
    by (simp add: var_in_def ex_tp_def plain_cube_def)
  have wet: "var_in ?e [''e'', ''sf'']"
    by (simp add: var_in_def ex_e_def plain_cube_def)
  have perm: "mset (rev rule_table) = mset rule_table"
    by simp
  note any = conjunct2 [OF mp [OF conjunct1 [OF set_global_attributes_rule_order
    [OF tp, where defn = ex_defn]] dry]]
  note a = mp [OF spec [OF any] perm]
  note b = conjunct1 [OF mp [OF conjunct2 [OF set_global_attributes_rule_order
    [OF e, where defn = ex_defn]] wet]]
  from a b show ?thesis by (intro conjI)
qed

text \<open>
  Claim C4 as stated: for the evaporation \<open>e\<close> two statements apply, and the units of the
  result depend on their order.
\<close>

theorem rules_order_matters_counterexample:
  "length (filter (\<lambda>r. applies r ex_e) rule_table) = 2 \<and>
   units (meta (apply_rules ex_defn rule_table ex_e)) = Times (U ''m'') (U ''kg m-3 day-1'') \<and>
   units (meta (apply_rules ex_defn (rev rule_table) ex_e)) = U ''m'' \<and>
   apply_rules ex_defn (rev rule_table) ex_e \<noteq> apply_rules ex_defn rule_table ex_e"
  by code_simp

section \<open>Properties of the extraction of a variable\<close>

lemma find_coord_Inr:
  assumes "find_coord P c = Inr i"
  shows "i < length (coords c) \<and> P (coords c ! i)"
proof -
  from assms have "filter (\<lambda>i. P (coords c ! i)) [0..<length (coords c)] = [i]"
    by (auto simp: find_coord_def split: list.splits)
  then have "i \<in> set (filter (\<lambda>i. P (coords c ! i)) [0..<length (coords c)])" by simp
  then show ?thesis by simp
qed

lemma fix_coordinates_leaves_argument:
  assumes "fix_coordinates L r defn h = Inr h'"
  shows "r < length h \<and> h' ! r = h ! r \<and> take (length h) h' = h"
proof -
  from assms have r: "r < length h"
    by (auto simp: fix_coordinates_def split: if_splits)
  with assms obtain c4 where "h' = h @ [c4]"
    by (auto simp: fix_coordinates_def dest!: andthen_Inr)
  with r show ?thesis by (simp add: nth_append)
qed

lemma extract_variable_coords:
  assumes "extract_variable L in_file v cf out_dir = Inr s" and "mip v \<notin> set daily_mips"
  shows "\<exists>c0 c1 defn attrs.
           load L in_file v = Inr c0 \<and> set_global_attributes L c0 attrs defn = Inr c1 \<and>
           coords (s_cube s) = coords c1"
proof -
  let ?attrs = "AList.update ''mip'' (mip v) (cfg_attributes cf)"
  from assms(1) obtain project where "map_of ?attrs ''project_id'' = Some project"
    by (auto simp: extract_variable_def Let_def split: option.splits)
  with assms(1) obtain defn c0 c1 h c4 c5 where
    ld: "load L in_file v = Inr c0" and
    sg: "set_global_attributes L c0 ?attrs defn = Inr c1" and
    fc: "fix_coordinates L 0 defn
           [c1\<lparr>meta := (meta c1)\<lparr>var_name := d_short_name defn,
                                   standard_name := d_standard_name defn,
                                   long_name := d_long_name defn\<rparr>,
                data := nd_map (float32 L) (data c1)\<rparr>] = Inr h" and
    ff: "fix_frequency L (h ! 0) v = Inr c4" and
    cu: "cube_convert_units L (d_units defn) c4 = Inr c5" and
    s: "s_cube s = c5"
    by (auto simp: extract_variable_def Let_def dest!: andthen_Inr)
  from fix_coordinates_leaves_argument [OF fc]
  have "coords (h ! 0) = coords c1" by simp
  moreover from ff assms(2) have "c4 = h ! 0" by (simp add: fix_frequency_def)
  moreover from cu have "coords c5 = coords c4"
    by (auto simp: cube_convert_units_def split: option.splits)
  ultimately have "coords (s_cube s) = coords c1" using s by simp
  with ld sg show ?thesis by blast
qed

section \<open>Properties of the change of frequency\<close>

lemma fix_frequency_not_daily: "mip v \<notin> set daily_mips \<Longrightarrow> fix_frequency L c v = Inr c"
  by (simp add: fix_frequency_def)

lemma fix_frequency_needs_two_days:
  assumes "fix_frequency L c v = Inr c'" and "mip v \<in> set daily_mips"
  shows "\<exists>k \<in> set (coords c'). coord_name k = ''time'' \<and> 2 \<le> length (c_points k) \<and>
           c_bounds k = Some (guessed (c_points k))"
proof -
  from assms obtain c6 where "on_time guess_bounds c6 = Inr c'"
    by (auto simp: fix_frequency_def dest!: andthen_Inr)
  then obtain i k where i: "find_coord (\<lambda>k. coord_name k = ''time'') c6 = Inr i"
    and k: "guess_bounds (coords c6 ! i) = Inr k" and c': "c' = set_coord i k c6"
    by (auto simp: on_time_def dest!: andthen_Inr)
  from find_coord_Inr [OF i] have lt: "i < length (coords c6)"
    and nm: "coord_name (coords c6 ! i) = ''time''" by simp_all
  from k have "k = (coords c6 ! i)\<lparr>c_bounds := Some (guessed (c_points (coords c6 ! i)))\<rparr>"
    and "2 \<le> length (c_points (coords c6 ! i))"
    by (auto simp: guess_bounds_def split: if_splits)
  with nm have "coord_name k = ''time'' \<and> 2 \<le> length (c_points k) \<and>
           c_bounds k = Some (guessed (c_points k))"
    by (simp add: coord_name_def cong: option.case_cong)
  moreover from c' lt have "k \<in> set (coords c')"
    by (simp add: set_coord_def set_update_memI)
  ultimately show ?thesis by blast
qed

lemma fix_frequency_two_days:
  "map_sum id (\<lambda>c. (data c, map coord_name (coords c), c_points (coords c ! 0),
                    c_bounds (coords c ! 0), cell_methods (meta c)))
     (fix_frequency ex_lib (ex_tas_cube two_days) ex_daily) =
     Inr (Arr [Arr [Arr [Sc 283, Sc 284], Arr [Sc 285, Sc 286], Arr [Sc 287, Sc 288]],
               Arr [Arr [Sc 307, Sc 308], Arr [Sc 309, Sc 310], Arr [Sc 311, Sc 312]]],
          [''time'', ''latitude'', ''longitude''],
          [876588, 876612],
          Some [(876576, 876600), (876600, 876624)],
          [''mean''])"
  by code_simp

lemma find_coord_unique:
  assumes "find_coord P c = Inr i" and "n < length (coords c)" and "P (coords c ! n)"
  shows "n = i"
proof -
  from assms(1) have "filter (\<lambda>i. P (coords c ! i)) [0..<length (coords c)] = [i]"
    by (auto simp: find_coord_def split: list.splits)
  moreover from assms(2,3) have "n \<in> set (filter (\<lambda>i. P (coords c ! i)) [0..<length (coords c)])"
    by simp
  ultimately show ?thesis by simp
qed

lemma find_coord_set_coord:
  assumes "i < length (coords c)" and "Q k = Q (coords c ! i)"
  shows "find_coord Q (set_coord i k c) = find_coord Q c"
proof -
  have "filter (\<lambda>n. Q ((coords c)[i := k] ! n)) [0..<length (coords c)] =
        filter (\<lambda>n. Q (coords c ! n)) [0..<length (coords c)]"
    using assms by (intro filter_cong refl) (auto simp: nth_list_update)
  then show ?thesis by (simp add: find_coord_def set_coord_def)
qed

lemma has_coord_set_coord:
  assumes "i < length (coords c)" and "coord_name k = coord_name (coords c ! i)"
  shows "has_coord nm (set_coord i k c) = has_coord nm c"
proof -
  have "(\<exists>n < length (coords c). coord_name ((coords c)[i := k] ! n) = nm) =
        (\<exists>n < length (coords c). coord_name (coords c ! n) = nm)"
    using assms by (metis nth_list_update)
  then show ?thesis
    by (simp add: has_coord_def set_coord_def Bex_def in_set_conv_nth) metis
qed

lemma on_time_Inr:
  assumes "on_time f c = Inr c'"
  shows "\<exists>i k. find_coord (\<lambda>k. coord_name k = ''time'') c = Inr i \<and> i < length (coords c) \<and>
           coord_name (coords c ! i) = ''time'' \<and> f (coords c ! i) = Inr k \<and>
           c' = set_coord i k c"
proof -
  from assms obtain i k where i: "find_coord (\<lambda>k. coord_name k = ''time'') c = Inr i"
    and k: "f (coords c ! i) = Inr k" and c': "c' = set_coord i k c"
    by (auto simp: on_time_def dest!: andthen_Inr)
  with find_coord_Inr [OF i] show ?thesis by blast
qed

lemma on_time_keeps:
  assumes i: "find_coord (\<lambda>k. coord_name k = ''time'') c = Inr i"
    and nm: "coord_name k = coord_name (coords c ! i)"
  shows "find_coord (\<lambda>k. coord_name k = ''time'') (set_coord i k c) = Inr i"
    and "coords (set_coord i k c) ! i = k"
    and "has_coord n (set_coord i k c) = has_coord n c"
    and "data (set_coord i k c) = data c" and "meta (set_coord i k c) = meta c"
proof -
  from find_coord_Inr [OF i] have lt: "i < length (coords c)" by simp
  show "find_coord (\<lambda>k. coord_name k = ''time'') (set_coord i k c) = Inr i"
    using find_coord_set_coord [OF lt, of "\<lambda>k. coord_name k = ''time''" k] nm i by simp
  show "coords (set_coord i k c) ! i = k" using lt by (simp add: set_coord_def)
  show "has_coord n (set_coord i k c) = has_coord n c" by (rule has_coord_set_coord [OF lt nm])
  show "data (set_coord i k c) = data c" "meta (set_coord i k c) = meta c"
    by (simp_all add: set_coord_def)
qed

lemma remove_coord_gone:
  assumes "remove_coord nm c = Inr c'"
  shows "\<not> has_coord nm c'" and "nm' \<noteq> nm \<Longrightarrow> has_coord nm' c' = has_coord nm' c"
    and "data c' = data c" and "meta c' = meta c"
proof -
  from assms obtain i where i: "find_coord (\<lambda>k. coord_name k = nm) c = Inr i"
    and c': "c' = c\<lparr>coords := take i (coords c) @ drop (Suc i) (coords c)\<rparr>"
    by (auto simp: remove_coord_def dest!: andthen_Inr)
  from find_coord_Inr [OF i] have lt: "i < length (coords c)"
    and here: "coord_name (coords c ! i) = nm" by simp_all
  have others: "coord_name (coords c ! n) \<noteq> nm" if "n < length (coords c)" "n \<noteq> i" for n
    using find_coord_unique [OF i that(1)] that(2) by blast
  have rest: "set (take i (coords c) @ drop (Suc i) (coords c)) =
              {coords c ! n | n. n < length (coords c) \<and> n \<noteq> i}"
  proof -
    have "coords c = take i (coords c) @ coords c ! i # drop (Suc i) (coords c)"
      using lt by (simp add: id_take_nth_drop)
    have a: "set (take i (coords c)) = {coords c ! n | n. n < i}"
    proof (intro set_eqI iffI)
      fix x assume "x \<in> set (take i (coords c))"
      then obtain m where "m < length (take i (coords c))" "x = take i (coords c) ! m"
        by (auto simp: in_set_conv_nth)
      then have "x = coords c ! m" "m < i" by auto
      then show "x \<in> {coords c ! n | n. n < i}" by blast
    next
      fix x assume "x \<in> {coords c ! n | n. n < i}"
      then obtain n where n: "x = coords c ! n" "n < i" by blast
      with lt have "x = take i (coords c) ! n" "n < length (take i (coords c))" by auto
      then show "x \<in> set (take i (coords c))" by (metis nth_mem)
    qed
    have b: "set (drop (Suc i) (coords c)) = {coords c ! n | n. i < n \<and> n < length (coords c)}"
    proof (intro set_eqI iffI)
      fix x assume "x \<in> set (drop (Suc i) (coords c))"
      then obtain m where "m < length (coords c) - Suc i" "x = drop (Suc i) (coords c) ! m"
        by (auto simp: in_set_conv_nth)
      then have "x = coords c ! (Suc i + m)" "i < Suc i + m" "Suc i + m < length (coords c)"
        by auto
      then show "x \<in> {coords c ! n | n. i < n \<and> n < length (coords c)}" by blast
    next
      fix x assume "x \<in> {coords c ! n | n. i < n \<and> n < length (coords c)}"
      then obtain n where n: "x = coords c ! n" "i < n" "n < length (coords c)" by blast
      then have "x = drop (Suc i) (coords c) ! (n - Suc i)" "n - Suc i < length (drop (Suc i) (coords c))"
        by auto
      then show "x \<in> set (drop (Suc i) (coords c))" by (metis nth_mem)
    qed
    have "{coords c ! n | n. n < i} \<union> {coords c ! n | n. i < n \<and> n < length (coords c)} =
          {coords c ! n | n. n < length (coords c) \<and> n \<noteq> i}"
    proof (intro set_eqI iffI)
      fix x assume "x \<in> {coords c ! n | n. n < i} \<union> {coords c ! n | n. i < n \<and> n < length (coords c)}"
      then obtain n where "x = coords c ! n" "n < i \<or> (i < n \<and> n < length (coords c))" by blast
      with lt have "x = coords c ! n" "n < length (coords c)" "n \<noteq> i" by auto
      then show "x \<in> {coords c ! n | n. n < length (coords c) \<and> n \<noteq> i}" by blast
    next
      fix x assume "x \<in> {coords c ! n | n. n < length (coords c) \<and> n \<noteq> i}"
      then obtain n where "x = coords c ! n" "n < length (coords c)" "n \<noteq> i" by blast
      then have "x = coords c ! n" "n < i \<or> (i < n \<and> n < length (coords c))" by auto
      then show "x \<in> {coords c ! n | n. n < i} \<union> {coords c ! n | n. i < n \<and> n < length (coords c)}"
        by blast
    qed
    then show ?thesis unfolding set_append a b .
  qed
  have "coords c' = take i (coords c) @ drop (Suc i) (coords c)" by (simp add: c')
  then have cs: "set (coords c') = {coords c ! n | n. n < length (coords c) \<and> n \<noteq> i}"
    by (simp only: rest)
  show "\<not> has_coord nm c'"
    using others by (auto simp: has_coord_def cs)
  show "has_coord nm' c' = has_coord nm' c" if "nm' \<noteq> nm"
  proof -
    have "has_coord nm' c = (\<exists>n < length (coords c). coord_name (coords c ! n) = nm')"
      unfolding has_coord_def Bex_def in_set_conv_nth by metis
    also have "\<dots> = (\<exists>n. n < length (coords c) \<and> n \<noteq> i \<and> coord_name (coords c ! n) = nm')"
      using here that by auto
    also have "\<dots> = has_coord nm' c'"
      by (auto simp: has_coord_def cs)
    finally show ?thesis by simp
  qed
  show "data c' = data c" "meta c' = meta c" by (simp_all add: c')
qed

lemma num2date_date2num: "0 < s \<Longrightarrow> num2date s r (date2num s r d) = d"
proof -
  assume "0 < s"
  then have "date2num s r d * of_int s = of_int (d - r)"
    by (simp add: date2num_def)
  then show ?thesis by (simp only: num2date_def round_of_int)
qed

lemma at_noon_mod: "at_noon d mod usec_per_day = 43200000000"
  by (simp add: at_noon_def usec_per_day_def)

lemma time_ref_Inr: "time_ref u = Inr (s, r) \<Longrightarrow> u = Since s r \<and> 0 < s"
  by (cases u) (auto simp: time_ref_def split: if_splits)

text \<open>
  What a call of \<^verbatim>\<open>_fix_frequency\<close> for a daily table has done when it returns: the
  time steps of the end-of-interval variables were shifted by one second, the cube was
  aggregated with the reducer of the variable, the helper coordinates are gone, every
  timestamp is at 12:00 of its day and the time bounds are the guessed ones. It returns
  only with two or more days.
\<close>

lemma fix_frequency_daily:
  assumes run: "fix_frequency L c v = Inr c'" and daily: "mip v \<in> set daily_mips"
  shows "\<exists>c1 c2 i s r.
           (if var_in c end_of_interval then on_time shift_back c else Inr c) = Inr c1 \<and>
           daily_statistics L c1 (reducer c1) = Inr c2 \<and>
           data c' = data c2 \<and> meta c' = meta c2 \<and>
           \<not> has_coord ''day_of_year'' c' \<and> \<not> has_coord ''year'' c' \<and>
           find_coord (\<lambda>k. coord_name k = ''time'') c' = Inr i \<and>
           time_ref (c_units (coords c' ! i)) = Inr (s, r) \<and>
           (\<forall>p \<in> set (c_points (coords c' ! i)). num2date s r p mod usec_per_day = 43200000000) \<and>
           2 \<le> length (c_points (coords c' ! i)) \<and>
           c_bounds (coords c' ! i) = Some (guessed (c_points (coords c' ! i)))"
proof -
  from run daily obtain c1 c2 c3 c4 c5 c6 where
    s1: "(if var_in c end_of_interval then on_time shift_back c else Inr c) = Inr c1" and
    s2: "daily_statistics L c1 (reducer c1) = Inr c2" and
    s3: "remove_coord ''day_of_year'' c2 = Inr c3" and
    s4: "remove_coord ''year'' c3 = Inr c4" and
    s5: "on_time reset_to_noon c4 = Inr c5" and
    s6: "on_time (\<lambda>k. Inr (k\<lparr>c_bounds := None\<rparr>)) c5 = Inr c6" and
    s7: "on_time guess_bounds c6 = Inr c'"
    unfolding fix_frequency_def by (auto dest!: andthen_Inr)
  note r3 = remove_coord_gone [OF s3]
  note r4 = remove_coord_gone [OF s4]
  have no4: "\<not> has_coord ''day_of_year'' c4" "\<not> has_coord ''year'' c4"
    using r3(1) r4(1) r4(2) [of "''day_of_year''"] by simp_all
  have dm4: "data c4 = data c2" "meta c4 = meta c2"
    using r3(3,4) r4(3,4) by simp_all
  from on_time_Inr [OF s5] obtain i k5 where
    i4: "find_coord (\<lambda>k. coord_name k = ''time'') c4 = Inr i" and
    k5: "reset_to_noon (coords c4 ! i) = Inr k5" and c5: "c5 = set_coord i k5 c4"
    by blast
  from k5 obtain s r where ref: "time_ref (c_units (coords c4 ! i)) = Inr (s, r)"
    and k5': "k5 = (coords c4 ! i)\<lparr>c_points :=
        map (\<lambda>p. date2num s r (at_noon (num2date s r p))) (c_points (coords c4 ! i))\<rparr>"
    by (auto simp: reset_to_noon_def dest!: andthen_Inr)
  have n5: "coord_name k5 = coord_name (coords c4 ! i)"
    by (simp add: k5' coord_name_def cong: option.case_cong)
  note t5 = on_time_keeps [OF i4 n5, folded c5]
  from on_time_Inr [OF s6] t5(1) obtain k6 where
    k6: "k6 = (coords c5 ! i)\<lparr>c_bounds := None\<rparr>" and c6: "c6 = set_coord i k6 c5"
    by auto
  have n6: "coord_name k6 = coord_name (coords c5 ! i)"
    by (simp add: k6 coord_name_def cong: option.case_cong)
  note t6 = on_time_keeps [OF t5(1) n6, folded c6]
  from on_time_Inr [OF s7] t6(1) obtain k7 where
    k7: "guess_bounds (coords c6 ! i) = Inr k7" and c7: "c' = set_coord i k7 c6"
    by auto
  from k7 have k7': "k7 = (coords c6 ! i)\<lparr>c_bounds := Some (guessed (c_points (coords c6 ! i)))\<rparr>"
    and two: "2 \<le> length (c_points (coords c6 ! i))"
    by (auto simp: guess_bounds_def split: if_splits)
  have n7: "coord_name k7 = coord_name (coords c6 ! i)"
    by (simp add: k7' coord_name_def cong: option.case_cong)
  note t7 = on_time_keeps [OF t6(1) n7, folded c7]
  have pts: "c_points (coords c' ! i) =
      map (\<lambda>p. date2num s r (at_noon (num2date s r p))) (c_points (coords c4 ! i))"
    and uni: "c_units (coords c' ! i) = c_units (coords c4 ! i)"
    and bnd: "c_bounds (coords c' ! i) = Some (guessed (c_points (coords c' ! i)))"
    and len: "2 \<le> length (c_points (coords c' ! i))"
    using two by (simp_all add: t7(2) k7' t6(2) k6 t5(2) k5')
  from time_ref_Inr [OF ref] have pos: "0 < s" by simp
  have noon: "\<forall>p \<in> set (c_points (coords c' ! i)). num2date s r p mod usec_per_day = 43200000000"
    unfolding pts by (simp add: num2date_date2num [OF pos] at_noon_mod)
  have gone: "\<not> has_coord ''day_of_year'' c'" "\<not> has_coord ''year'' c'"
    using no4 by (simp_all add: t7(3) t6(3) t5(3))
  have dm: "data c' = data c2" "meta c' = meta c2"
    using dm4 by (simp_all add: t7(4,5) t6(4,5) t5(4,5))
  from s1 s2 dm gone t7(1) ref uni noon len bnd show ?thesis
    by (intro exI [of _ c1] exI [of _ c2] exI [of _ i] exI [of _ s] exI [of _ r]) simp
qed

text \<open>
  Claim C7 on a cube of \<open>tas\<close> for the table \<open>day\<close> with four time steps, six hours
  apart, on one day: the aggregation leaves one time step, and the last statement of
  \<^verbatim>\<open>_fix_frequency\<close>, which regenerates the time bounds, raises. In
  \<^verbatim>\<open>_fix_coordinates\<close> the same call is made only for more than one point.
\<close>

theorem fix_frequency_single_day_raises:
  "fix_frequency ex_lib (ex_tas_cube one_day) ex_daily =
     Inl (ValueError ''Cannot guess bounds for a coordinate of length 1.'')"
  by code_simp

section \<open>The cube that is written out\<close>

text \<open>
  Claim C1 on a monthly file of the 2m temperature whose latitudes run from north to
  south. The cube that \<^verbatim>\<open>_extract_variable\<close> hands to \<^verbatim>\<open>save_variable\<close> has the
  coordinates and the data of the file: the latitudes still decrease, the coordinates keep
  their raw names and the time its raw unit. The normalised coordinates are those of the
  second cube that \<^verbatim>\<open>_fix_coordinates\<close> made and did not return.
\<close>

theorem extract_variable_saves_raw_coordinates:
  "map_sum id (\<lambda>s. (coords (s_cube s), data (s_cube s)))
     (extract_variable ex_lib (One [''in'', ''ERA-Interim_t2m_monthly_2000.nc'']) ex_monthly
        ex_cfg ''out'') =
     Inr ([ex_time one_day, ex_latitude, ex_longitude], data (ex_t2m one_day)) \<and>
   c_points ex_latitude = [90, 0, - 90] \<and>
   c_var_name ex_latitude = Some ''latitude'' \<and>
   c_units (ex_time one_day) = hours_since_1900 \<and>
   map_sum id (\<lambda>h. (length h, map c_var_name (coords (h ! 1)), c_points (coords (h ! 1) ! 1)))
     (fix_coordinates ex_lib 0 ex_tas [ex_t2m one_day]) =
     Inr (2, [Some ''time'', Some ''lat'', Some ''lon'', Some ''height''], [- 90, 0, 90])"
  by code_simp

end
